theory Spec2Isabelle
  imports Main "HOL-Library.Monad_Syntax"
begin

section \<open>JavaScript values read from and written to the store file\<close>

text \<open>
  The store keeps one JSON document. \<open>json\<close> is a value as \<open>JSON.parse\<close> returns it and
  as \<open>JSON.stringify\<close> writes it. An object is the list of its own properties in insertion
  order; a property whose value is \<open>undefined\<close> is the same as an absent property (this is
  what \<open>JSON.stringify\<close> and the zod schemas see). Numbers are the integers: the store only
  writes counts and only asks whether a number is zero, an integer, or negative.
\<close>

datatype json =
    JNull
  | JBool bool
  | JNum int
  | JStr string
  | JArr "json list"
  | JObj "(string \<times> json) list"

datatype validation_reason =
    InvalidTodoData
  | AlreadyExists string
  | UpdatedTodoInvalid
  | ArrayMigrationFailed
  | AddMetadataFailed
  | UnsupportedFormat

datatype fileop = ReadOp | WriteOp | BackupOp

text \<open>
  The exceptions of errors.ts, with the message each throw site builds. \<open>SysError c\<close> is a
  rejection of an \<open>fs\<close> call carrying the errno code \<open>c\<close>; \<open>TypeError\<close> and \<open>SyntaxError\<close>
  are the built-in exceptions of a property read on \<open>null\<close> and of \<open>JSON.parse\<close>;
  \<open>PlainError\<close> is a bare \<open>new Error(...)\<close>.
\<close>

datatype error =
    SysError string
  | TypeError
  | SyntaxError
  | StorageError storage_reason
  | FileError fileop string file_reason
  | ValidationError validation_reason
  | NotFoundError string string
  | PlainError plain_reason
and storage_reason =
    NotInitialized
  | InitializeFailed error
  | AttemptsExhausted nat error
and file_reason =
    InvalidJSON error
  | SaveFailed error
and plain_reason =
    BackupFailed error
  | RestoreFailed error

type_synonym 'a result = "error + 'a"

text \<open>The \<open>code\<close> property that \<open>initialize\<close> compares with \<open>'ENOENT'\<close>.\<close>

fun error_code :: "error \<Rightarrow> string option" where
  "error_code (SysError c) = Some c"
| "error_code (StorageError _) = Some ''STORAGE_ERROR''"
| "error_code (FileError ReadOp _ _) = Some ''FILE_READ_ERROR''"
| "error_code (FileError WriteOp _ _) = Some ''FILE_WRITE_ERROR''"
| "error_code (FileError BackupOp _ _) = Some ''BACKUP_ERROR''"
| "error_code (ValidationError _) = Some ''VALIDATION_ERROR''"
| "error_code (NotFoundError r _) =
     Some (if r = ''todo'' then ''TODO_NOT_FOUND'' else ''RESOURCE_NOT_FOUND'')"
| "error_code _ = None"

fun is_ValidationError :: "error \<Rightarrow> bool" where
  "is_ValidationError (ValidationError _) = True"
| "is_ValidationError _ = False"

fun is_NotFoundError :: "error \<Rightarrow> bool" where
  "is_NotFoundError (NotFoundError _ _) = True"
| "is_NotFoundError _ = False"

fun is_StorageError :: "error \<Rightarrow> bool" where
  "is_StorageError (StorageError _) = True"
| "is_StorageError _ = False"

subsection \<open>Property reads, truthiness, string conversion\<close>

text \<open>
  \<open>get_prop v k\<close> is the read \<open>v.k\<close> for the property names the store uses (\<open>id\<close>, \<open>title\<close>,
  \<open>todos\<close>, ...): it throws on \<open>null\<close>, looks the key up in an object, and is \<open>undefined\<close>
  (\<open>None\<close>) on numbers, booleans, strings and arrays, which have none of these properties.
\<close>

fun field :: "json \<Rightarrow> string \<Rightarrow> json option" where
  "field (JObj kvs) k = map_of kvs k"
| "field _ k = None"

definition get_prop :: "json \<Rightarrow> string \<Rightarrow> json option result" where
  "get_prop v k = (if v = JNull then Inl TypeError else Inr (field v k))"

fun truthy :: "json option \<Rightarrow> bool" where
  "truthy None = False"
| "truthy (Some JNull) = False"
| "truthy (Some (JBool b)) = b"
| "truthy (Some (JNum n)) = (n \<noteq> 0)"
| "truthy (Some (JStr s)) = (s \<noteq> [])"
| "truthy (Some (JArr _)) = True"
| "truthy (Some (JObj _)) = True"

text \<open>Assignment \<open>o[k] = v\<close>: an existing key keeps its place, a new key goes last.\<close>

fun assign :: "string \<Rightarrow> json \<Rightarrow> (string \<times> json) list \<Rightarrow> (string \<times> json) list" where
  "assign k v [] = [(k, v)]"
| "assign k v ((k', v') # kvs) =
     (if k' = k then (k, v) # kvs else (k', v') # assign k v kvs)"

definition digit :: "nat \<Rightarrow> char" where
  "digit n = ''0123456789'' ! (n mod 10)"

fun show_nat :: "nat \<Rightarrow> string" where
  "show_nat n = (if n < 10 then [digit n] else show_nat (n div 10) @ [digit (n mod 10)])"

declare show_nat.simps [simp del]

definition show_int :: "int \<Rightarrow> string" where
  "show_int i = (if i < 0 then CHR ''-'' # show_nat (nat (- i)) else show_nat (nat i))"

fun join :: "string \<Rightarrow> string list \<Rightarrow> string" where
  "join sep [] = []"
| "join sep [s] = s"
| "join sep (s # t # ss) = s @ sep @ join sep (t # ss)"

text \<open>\<open>String(v)\<close>, used when a value becomes a property key or a date string.\<close>

fun js_string :: "json \<Rightarrow> string"
  and js_strings :: "json list \<Rightarrow> string list" where
  "js_string JNull = ''null''"
| "js_string (JBool b) = (if b then ''true'' else ''false'')"
| "js_string (JNum n) = show_int n"
| "js_string (JStr s) = s"
| "js_string (JArr xs) = join '','' (js_strings xs)"
| "js_string (JObj _) = ''[object Object]''"
| "js_strings [] = []"
| "js_strings (x # xs) = (if x = JNull then [] else js_string x) # js_strings xs"

text \<open>The own enumerable properties that an object spread \<open>{...v}\<close> copies.\<close>

fun own_props :: "json \<Rightarrow> (string \<times> json) list" where
  "own_props (JObj kvs) = kvs"
| "own_props (JArr xs) = map (\<lambda>i. (show_nat i, xs ! i)) [0..<length xs]"
| "own_props (JStr s) = map (\<lambda>i. (show_nat i, JStr [s ! i])) [0..<length s]"
| "own_props _ = []"

section \<open>The data model of types.ts\<close>

datatype TodoPriority = Low | Medium | High

text \<open>The interface \<open>Todo\<close>: a record that satisfies its static type.\<close>

record Todo =
  todo_id :: string
  title :: string
  description :: string
  completed :: bool
  createdAt :: string
  updatedAt :: string
  dueDate :: "string option"
  priority :: TodoPriority
  tags :: "string list"

record Metadata =
  version :: string
  lastModified :: string
  totalCount :: nat
  completedCount :: nat

text \<open>
  The aggregate the store holds in memory. The migration builds todos from values of type
  \<open>any\<close>, so a stored todo is a JavaScript value, not necessarily a well-typed \<open>Todo\<close>.
\<close>

record TodoList =
  todos :: "json list"
  metadata :: Metadata

record ByPriority =
  low :: nat
  medium :: nat
  high :: nat

record Stats =
  total :: nat
  completed_count :: nat
  overdue :: nat
  byPriority :: ByPriority

fun priority_name :: "TodoPriority \<Rightarrow> string" where
  "priority_name Low = ''low''"
| "priority_name Medium = ''medium''"
| "priority_name High = ''high''"

definition priority_of_name :: "string \<Rightarrow> TodoPriority option" where
  "priority_of_name s =
     (if s = ''low'' then Some Low
      else if s = ''medium'' then Some Medium
      else if s = ''high'' then Some High
      else None)"

text \<open>A well-typed Todo as the JavaScript object it is; an absent \<open>dueDate\<close> is no property.\<close>

definition todo_json :: "Todo \<Rightarrow> json" where
  "todo_json t = JObj (
     [(''id'', JStr (todo_id t)),
      (''title'', JStr (title t)),
      (''description'', JStr (description t)),
      (''completed'', JBool (completed t)),
      (''createdAt'', JStr (createdAt t)),
      (''updatedAt'', JStr (updatedAt t))]
     @ (case dueDate t of None \<Rightarrow> [] | Some d \<Rightarrow> [(''dueDate'', JStr d)])
     @ [(''priority'', JStr (priority_name (priority t))),
        (''tags'', JArr (map JStr (tags t)))])"

definition metadata_json :: "Metadata \<Rightarrow> json" where
  "metadata_json m = JObj
     [(''version'', JStr (version m)),
      (''lastModified'', JStr (lastModified m)),
      (''totalCount'', JNum (int (totalCount m))),
      (''completedCount'', JNum (int (completedCount m)))]"

text \<open>The value that \<open>JSON.stringify(this.data)\<close> writes and \<open>JSON.parse\<close> reads back.\<close>

definition TodoList_json :: "TodoList \<Rightarrow> json" where
  "TodoList_json l = JObj [(''todos'', JArr (todos l)), (''metadata'', metadata_json (metadata l))]"

section \<open>The runtime and the outside world\<close>

text \<open>
  What the JavaScript runtime and the zod library supply: the string formats of
  \<open>z.string().uuid()\<close>, \<open>.datetime()\<close> and \<open>.date()\<close>, \<open>Date.prototype.toISOString\<close> on a
  time in milliseconds, and the date parser of \<open>new Date(string)\<close> (\<open>None\<close> is an invalid
  date). The theorems hold for every runtime.
\<close>

record Runtime =
  is_uuid :: "string \<Rightarrow> bool"
  is_datetime :: "string \<Rightarrow> bool"
  is_date :: "string \<Rightarrow> bool"
  toISOString :: "nat \<Rightarrow> string"
  Date_parse :: "string \<Rightarrow> int option"

datatype filedata = Document json | Malformed

datatype event = Mkdir | ReadFile string | WriteFile string | Sleep nat

text \<open>
  The world outside the store: the files (by path; a file holds a JSON document or text
  that \<open>JSON.parse\<close> rejects), a script of faults (the n-th \<open>fs\<close> call fails with the errno
  code the script gives for it, if any), the wall clock in milliseconds, the stream of
  random UUIDs with the number drawn so far, and the log of \<open>fs\<close> calls and timer waits.
  The clock stands still while the store computes and moves by the delay of each wait.
  Directories are not modelled: \<open>mkdir\<close> succeeds unless the script makes it fail.
\<close>

record World =
  files :: "string \<Rightarrow> filedata option"
  faults :: "string option list"
  now :: nat
  randomUUID :: "nat \<Rightarrow> string"
  drawn :: nat
  events :: "event list"

definition fs_call :: "event \<Rightarrow> World \<Rightarrow> string option \<times> World" where
  "fs_call ev w =
     ((case faults w of [] \<Rightarrow> None | f # fs \<Rightarrow> f),
      w\<lparr>faults := tl (faults w), events := events w @ [ev]\<rparr>)"

definition fs_mkdir :: "World \<Rightarrow> unit result \<times> World" where
  "fs_mkdir w =
     (case fs_call Mkdir w of
        (Some c, w') \<Rightarrow> (Inl (SysError c), w')
      | (None, w') \<Rightarrow> (Inr (), w'))"

definition fs_readFile :: "string \<Rightarrow> World \<Rightarrow> filedata result \<times> World" where
  "fs_readFile p w =
     (case fs_call (ReadFile p) w of
        (Some c, w') \<Rightarrow> (Inl (SysError c), w')
      | (None, w') \<Rightarrow>
          (case files w' p of
             None \<Rightarrow> (Inl (SysError ''ENOENT''), w')
           | Some d \<Rightarrow> (Inr d, w')))"

definition fs_writeFile :: "string \<Rightarrow> json \<Rightarrow> World \<Rightarrow> unit result \<times> World" where
  "fs_writeFile p d w =
     (case fs_call (WriteFile p) w of
        (Some c, w') \<Rightarrow> (Inl (SysError c), w')
      | (None, w') \<Rightarrow> (Inr (), w'\<lparr>files := (files w')(p \<mapsto> Document d)\<rparr>))"

definition sleep :: "nat \<Rightarrow> World \<Rightarrow> World" where
  "sleep d w = w\<lparr>now := now w + d, events := events w @ [Sleep d]\<rparr>"

definition JSON_parse :: "filedata \<Rightarrow> json result" where
  "JSON_parse d = (case d of Document v \<Rightarrow> Inr v | Malformed \<Rightarrow> Inl SyntaxError)"

definition generateId :: "World \<Rightarrow> string \<times> World" where
  "generateId w = (randomUUID w (drawn w), w\<lparr>drawn := Suc (drawn w)\<rparr>)"

definition getCurrentTimestamp :: "Runtime \<Rightarrow> World \<Rightarrow> string" where
  "getCurrentTimestamp rt w = toISOString rt (now w)"

section \<open>The zod schemas\<close>

definition z_string :: "json option \<Rightarrow> string option" where
  "z_string v = (case v of Some (JStr s) \<Rightarrow> Some s | _ \<Rightarrow> None)"

definition z_format :: "(string \<Rightarrow> bool) \<Rightarrow> json option \<Rightarrow> string option" where
  "z_format ok v = (case z_string v of Some s \<Rightarrow> if ok s then Some s else None | None \<Rightarrow> None)"

definition z_title :: "json option \<Rightarrow> string option" where
  "z_title v = z_format (\<lambda>s. 1 \<le> length s \<and> length s \<le> 200) v"

definition z_description :: "json option \<Rightarrow> string option" where
  "z_description v = (case v of None \<Rightarrow> Some [] | _ \<Rightarrow> z_format (\<lambda>s. length s \<le> 1000) v)"

definition z_completed :: "json option \<Rightarrow> bool option" where
  "z_completed v = (case v of None \<Rightarrow> Some False | Some (JBool b) \<Rightarrow> Some b | _ \<Rightarrow> None)"

definition z_dueDate :: "Runtime \<Rightarrow> json option \<Rightarrow> string option option" where
  "z_dueDate rt v = (case v of None \<Rightarrow> Some None | _ \<Rightarrow> map_option Some (z_format (is_date rt) v))"

definition z_priority :: "json option \<Rightarrow> TodoPriority option" where
  "z_priority v =
     (case v of None \<Rightarrow> Some Medium | Some (JStr s) \<Rightarrow> priority_of_name s | _ \<Rightarrow> None)"

fun z_tag_list :: "json list \<Rightarrow> string list option" where
  "z_tag_list [] = Some []"
| "z_tag_list (x # xs) =
     (case z_format (\<lambda>s. length s \<le> 50) (Some x) of
        None \<Rightarrow> None
      | Some s \<Rightarrow> map_option ((#) s) (z_tag_list xs))"

definition z_tags :: "json option \<Rightarrow> string list option" where
  "z_tags v =
     (case v of
        None \<Rightarrow> Some []
      | Some (JArr xs) \<Rightarrow> if length xs \<le> 10 then z_tag_list xs else None
      | _ \<Rightarrow> None)"

text \<open>
  \<open>TodoSchema.parse\<close>: \<open>None\<close> is the thrown \<open>ZodError\<close>. Unknown keys are dropped, defaults
  fill the absent optional fields.
\<close>

definition TodoSchema_parse :: "Runtime \<Rightarrow> json \<Rightarrow> Todo option" where
  "TodoSchema_parse rt v =
     (case v of
        JObj kvs \<Rightarrow>
          do {
            i \<leftarrow> z_format (is_uuid rt) (map_of kvs ''id'');
            t \<leftarrow> z_title (map_of kvs ''title'');
            d \<leftarrow> z_description (map_of kvs ''description'');
            c \<leftarrow> z_completed (map_of kvs ''completed'');
            ca \<leftarrow> z_format (is_datetime rt) (map_of kvs ''createdAt'');
            ua \<leftarrow> z_format (is_datetime rt) (map_of kvs ''updatedAt'');
            dd \<leftarrow> z_dueDate rt (map_of kvs ''dueDate'');
            p \<leftarrow> z_priority (map_of kvs ''priority'');
            tg \<leftarrow> z_tags (map_of kvs ''tags'');
            Some \<lparr>todo_id = i, title = t, description = d, completed = c, createdAt = ca,
                  updatedAt = ua, dueDate = dd, priority = p, tags = tg\<rparr>
          }
      | _ \<Rightarrow> None)"

fun z_todo_list :: "Runtime \<Rightarrow> json list \<Rightarrow> Todo list option" where
  "z_todo_list rt [] = Some []"
| "z_todo_list rt (x # xs) =
     (case TodoSchema_parse rt x of
        None \<Rightarrow> None
      | Some t \<Rightarrow> map_option ((#) t) (z_todo_list rt xs))"

definition z_todos :: "Runtime \<Rightarrow> json option \<Rightarrow> Todo list option" where
  "z_todos rt v = (case v of None \<Rightarrow> Some [] | Some (JArr xs) \<Rightarrow> z_todo_list rt xs | _ \<Rightarrow> None)"

definition z_count :: "json option \<Rightarrow> nat option" where
  "z_count v = (case v of Some (JNum n) \<Rightarrow> if 0 \<le> n then Some (nat n) else None | _ \<Rightarrow> None)"

definition z_version :: "json option \<Rightarrow> string option" where
  "z_version v = (case v of None \<Rightarrow> Some ''1.0.0'' | _ \<Rightarrow> z_string v)"

definition z_metadata :: "Runtime \<Rightarrow> json option \<Rightarrow> Metadata option" where
  "z_metadata rt v =
     (case v of
        Some (JObj kvs) \<Rightarrow>
          do {
            ver \<leftarrow> z_version (map_of kvs ''version'');
            lm \<leftarrow> z_format (is_datetime rt) (map_of kvs ''lastModified'');
            tc \<leftarrow> z_count (map_of kvs ''totalCount'');
            cc \<leftarrow> z_count (map_of kvs ''completedCount'');
            Some \<lparr>version = ver, lastModified = lm, totalCount = tc, completedCount = cc\<rparr>
          }
      | _ \<Rightarrow> None)"

text \<open>\<open>TodoListSchema.parse\<close>; the parsed todos are the objects zod builds.\<close>

definition TodoListSchema_parse :: "Runtime \<Rightarrow> json \<Rightarrow> TodoList option" where
  "TodoListSchema_parse rt v =
     (case v of
        JObj kvs \<Rightarrow>
          do {
            ts \<leftarrow> z_todos rt (map_of kvs ''todos'');
            m \<leftarrow> z_metadata rt (map_of kvs ''metadata'');
            Some \<lparr>todos = map todo_json ts, metadata = m\<rparr>
          }
      | _ \<Rightarrow> None)"

section \<open>TodoUtils\<close>

text \<open>
  One property of an object literal; a value that is \<open>undefined\<close> leaves, in this
  representation, no property.
\<close>

definition entry :: "string \<Rightarrow> json option \<Rightarrow> (string \<times> json) list" where
  "entry k v = (case v of None \<Rightarrow> [] | Some x \<Rightarrow> [(k, x)])"

text \<open>
  The \<open>updates\<close> argument of \<open>updateTodo\<close> as the object it is at run time: its own
  properties in insertion order, each with its value, \<open>None\<close> for a property that is
  present with the value \<open>undefined\<close> (which \<open>Partial\<close> admits for every field).
\<close>

type_synonym updates = "(string \<times> json option) list"

text \<open>
  What the object spread does with one property of \<open>updates\<close>: it assigns the value.
  Assigning \<open>undefined\<close> leaves, in this representation, no property.
\<close>

fun put :: "string \<Rightarrow> json option \<Rightarrow> (string \<times> json) list \<Rightarrow> (string \<times> json) list" where
  "put k None kvs = filter (\<lambda>p. fst p \<noteq> k) kvs"
| "put k (Some v) kvs = assign k v kvs"

fun assign_all :: "updates \<Rightarrow> (string \<times> json) list \<Rightarrow> (string \<times> json) list" where
  "assign_all [] obj = obj"
| "assign_all ((k, v) # ups) obj = assign_all ups (put k v obj)"

text \<open>\<open>{ ...existingTodo, ...updates, updatedAt: this.getCurrentTimestamp() }\<close>\<close>

definition TodoUtils_updateTodo :: "Runtime \<Rightarrow> World \<Rightarrow> json \<Rightarrow> updates \<Rightarrow> json" where
  "TodoUtils_updateTodo rt w existingTodo updates =
     JObj (assign ''updatedAt'' (JStr (getCurrentTimestamp rt w))
            (assign_all updates (own_props existingTodo)))"

text \<open>
  The time value of \<open>new Date(v)\<close>; \<open>None\<close> is an invalid date. The empty string is no
  date; other strings go to the runtime's parser.
\<close>

definition Date_string :: "Runtime \<Rightarrow> string \<Rightarrow> int option" where
  "Date_string rt s = (if s = [] then None else Date_parse rt s)"

definition Date_of :: "Runtime \<Rightarrow> json \<Rightarrow> int option" where
  "Date_of rt v =
     (case v of
        JNull \<Rightarrow> Some 0
      | JBool b \<Rightarrow> Some (if b then 1 else 0)
      | JNum n \<Rightarrow> if \<bar>n\<bar> \<le> 8640000000000000 then Some n else None
      | JStr s \<Rightarrow> Date_string rt s
      | _ \<Rightarrow> Date_string rt (js_string v))"

text \<open>\<open>!!(todo.dueDate && new Date(todo.dueDate) < new Date() && !todo.completed)\<close>\<close>

definition isOverdue :: "Runtime \<Rightarrow> nat \<Rightarrow> json \<Rightarrow> bool result" where
  "isOverdue rt t todo =
     (case get_prop todo ''dueDate'' of
        Inl e \<Rightarrow> Inl e
      | Inr None \<Rightarrow> Inr False
      | Inr (Some d) \<Rightarrow>
          if \<not> truthy (Some d) then Inr False
          else if \<not> (case Date_of rt d of Some ms \<Rightarrow> ms < int t | None \<Rightarrow> False) then Inr False
          else (case get_prop todo ''completed'' of
                  Inl e \<Rightarrow> Inl e
                | Inr c \<Rightarrow> Inr (\<not> truthy c)))"

text \<open>
  \<open>stats.byPriority[todo.priority]++\<close>: the value becomes a property key. Keys other than
  the three buckets get a property of their own, which the record does not show.
\<close>

definition bump :: "json option \<Rightarrow> ByPriority \<Rightarrow> ByPriority" where
  "bump p b =
     (let key = (case p of None \<Rightarrow> ''undefined'' | Some v \<Rightarrow> js_string v) in
      if key = ''low'' then b\<lparr>low := low b + 1\<rparr>
      else if key = ''medium'' then b\<lparr>medium := medium b + 1\<rparr>
      else if key = ''high'' then b\<lparr>high := high b + 1\<rparr>
      else b)"

fun stats_forEach :: "Runtime \<Rightarrow> nat \<Rightarrow> json list \<Rightarrow> Stats \<Rightarrow> Stats result" where
  "stats_forEach rt t [] s = Inr s"
| "stats_forEach rt t (todo # rest) s =
     (case get_prop todo ''completed'' of
        Inl e \<Rightarrow> Inl e
      | Inr c \<Rightarrow>
          (case isOverdue rt t todo of
             Inl e \<Rightarrow> Inl e
           | Inr od \<Rightarrow>
               (case get_prop todo ''priority'' of
                  Inl e \<Rightarrow> Inl e
                | Inr p \<Rightarrow>
                    stats_forEach rt t rest
                      (s\<lparr>completed_count := completed_count s + (if truthy c then 1 else 0),
                         overdue := overdue s + (if od then 1 else 0),
                         byPriority := bump p (byPriority s)\<rparr>))))"

definition TodoUtils_getStats :: "Runtime \<Rightarrow> nat \<Rightarrow> json list \<Rightarrow> Stats result" where
  "TodoUtils_getStats rt t ts =
     stats_forEach rt t ts
       \<lparr>total = length ts, completed_count = 0, overdue = 0,
        byPriority = \<lparr>low = 0, medium = 0, high = 0\<rparr>\<rparr>"

section \<open>TodoStorage\<close>

record TodoStorage =
  filePath :: string
  data :: TodoList
  isInitialized :: bool

definition new_TodoStorage :: "Runtime \<Rightarrow> World \<Rightarrow> string \<Rightarrow> TodoStorage" where
  "new_TodoStorage rt w path =
     \<lparr>filePath = path,
      data = \<lparr>todos = [],
              metadata = \<lparr>version = ''1.0.0'', lastModified = getCurrentTimestamp rt w,
                          totalCount = 0, completedCount = 0\<rparr>\<rparr>,
      isInitialized = False\<rparr>"

subsection \<open>RetryHandler.withRetry\<close>

text \<open>
  The statement after the loop: \<open>lastError\<close> is unset only when the loop never ran, and
  reading its message then throws.
\<close>

definition attempts_failed :: "nat \<Rightarrow> error option \<Rightarrow> error" where
  "attempts_failed maxRetries lastError =
     (case lastError of
        None \<Rightarrow> TypeError
      | Some e \<Rightarrow> StorageError (AttemptsExhausted maxRetries e))"

function withRetry_from ::
  "(TodoStorage \<Rightarrow> World \<Rightarrow> 'a result \<times> TodoStorage \<times> World) \<Rightarrow> nat \<Rightarrow> nat \<Rightarrow> nat
     \<Rightarrow> error option \<Rightarrow> TodoStorage \<Rightarrow> World \<Rightarrow> 'a result \<times> TodoStorage \<times> World" where
  "withRetry_from operation maxRetries delayMs attempt lastError st w =
     (if attempt \<le> maxRetries then
        (case operation st w of
           (Inr v, st', w') \<Rightarrow> (Inr v, st', w')
         | (Inl e, st', w') \<Rightarrow>
             if is_ValidationError e \<or> is_NotFoundError e then (Inl e, st', w')
             else if attempt = maxRetries then (Inl (attempts_failed maxRetries (Some e)), st', w')
             else withRetry_from operation maxRetries delayMs (attempt + 1) (Some e) st'
                    (sleep (delayMs * 2 ^ (attempt - 1)) w'))
      else (Inl (attempts_failed maxRetries lastError), st, w))"
  by pat_completeness auto
termination
  by (relation "measure (\<lambda>(operation, maxRetries, delayMs, attempt, lastError, st, w).
                           Suc maxRetries - attempt)") auto

declare withRetry_from.simps [simp del]

definition withRetry ::
  "(TodoStorage \<Rightarrow> World \<Rightarrow> 'a result \<times> TodoStorage \<times> World) \<Rightarrow> nat \<Rightarrow> nat
     \<Rightarrow> TodoStorage \<Rightarrow> World \<Rightarrow> 'a result \<times> TodoStorage \<times> World" where
  "withRetry operation maxRetries delayMs st w =
     withRetry_from operation maxRetries delayMs 1 None st w"

subsection \<open>Saving\<close>

definition updateMetadata :: "Runtime \<Rightarrow> World \<Rightarrow> TodoStorage \<Rightarrow> TodoStorage result" where
  "updateMetadata rt w st =
     (case TodoUtils_getStats rt (now w) (todos (data st)) of
        Inl e \<Rightarrow> Inl e
      | Inr stats \<Rightarrow>
          Inr (st\<lparr>data := (data st)\<lparr>metadata := (metadata (data st))
                  \<lparr>lastModified := getCurrentTimestamp rt w,
                   totalCount := total stats,
                   completedCount := completed_count stats\<rparr>\<rparr>\<rparr>))"

definition write_op ::
  "string \<Rightarrow> json \<Rightarrow> TodoStorage \<Rightarrow> World \<Rightarrow> unit result \<times> TodoStorage \<times> World" where
  "write_op path jsonData st w = (case fs_writeFile path jsonData w of (r, w') \<Rightarrow> (r, st, w'))"

definition saveToFile :: "Runtime \<Rightarrow> TodoStorage \<Rightarrow> World \<Rightarrow> unit result \<times> TodoStorage \<times> World" where
  "saveToFile rt st w =
     (case updateMetadata rt w st of
        Inl e \<Rightarrow> (Inl (FileError WriteOp (filePath st) (SaveFailed e)), st, w)
      | Inr st1 \<Rightarrow>
          (case withRetry (write_op (filePath st1) (TodoList_json (data st1))) 3 500 st1 w of
             (Inl e, st2, w2) \<Rightarrow> (Inl (FileError WriteOp (filePath st) (SaveFailed e)), st2, w2)
           | (Inr u, st2, w2) \<Rightarrow> (Inr (), st2, w2)))"

subsection \<open>Migration\<close>

text \<open>
  \<open>x || d\<close> on a property that may be absent: \<open>truthy_value x\<close> is the value of \<open>x\<close> when
  it is truthy.
\<close>

definition truthy_value :: "json option \<Rightarrow> json option" where
  "truthy_value x = (if truthy x then x else None)"

definition or_else :: "json option \<Rightarrow> json \<Rightarrow> json" where
  "or_else x d = (case truthy_value x of Some v \<Rightarrow> v | None \<Rightarrow> d)"

text \<open>
  The callback of \<open>rawData.map\<close> in the array branch. Reading \<open>todo.id\<close> throws on \<open>null\<close>;
  \<open>dueDate: todo.dueDate || undefined\<close> leaves no property when the value is falsy.
\<close>

definition migrate_todo :: "Runtime \<Rightarrow> json \<Rightarrow> World \<Rightarrow> json result \<times> World" where
  "migrate_todo rt todo w =
     (case get_prop todo ''id'' of
        Inl e \<Rightarrow> (Inl e, w)
      | Inr i \<Rightarrow>
          (case (case truthy_value i of
                   Some v \<Rightarrow> (v, w)
                 | None \<Rightarrow> (case generateId w of (u, w') \<Rightarrow> (JStr u, w'))) of
             (idv, w1) \<Rightarrow>
               (Inr (JObj (
                  [(''id'', idv),
                   (''title'', or_else (field todo ''title'') (JStr ''Untitled'')),
                   (''description'', or_else (field todo ''description'') (JStr [])),
                   (''completed'', JBool (truthy (field todo ''completed''))),
                   (''createdAt'',
                      or_else (field todo ''createdAt'') (JStr (getCurrentTimestamp rt w1))),
                   (''updatedAt'',
                      or_else (field todo ''updatedAt'') (JStr (getCurrentTimestamp rt w1)))]
                  @ entry ''dueDate'' (truthy_value (field todo ''dueDate''))
                  @ [(''priority'', or_else (field todo ''priority'') (JStr ''medium'')),
                     (''tags'', (case field todo ''tags'' of
                                  Some (JArr xs) \<Rightarrow> JArr xs
                                | _ \<Rightarrow> JArr []))])),
                w1)))"

fun migrate_todos :: "Runtime \<Rightarrow> json list \<Rightarrow> World \<Rightarrow> json list result \<times> World" where
  "migrate_todos rt [] w = (Inr [], w)"
| "migrate_todos rt (todo # rest) w =
     (case migrate_todo rt todo w of
        (Inl e, w1) \<Rightarrow> (Inl e, w1)
      | (Inr t, w1) \<Rightarrow>
          (case migrate_todos rt rest w1 of
             (Inl e, w2) \<Rightarrow> (Inl e, w2)
           | (Inr ts, w2) \<Rightarrow> (Inr (t # ts), w2)))"

text \<open>\<open>xs.filter((todo) => todo.completed).length\<close>; the callback throws on \<open>null\<close>.\<close>

fun count_completed :: "json list \<Rightarrow> nat result" where
  "count_completed [] = Inr 0"
| "count_completed (todo # rest) =
     (case get_prop todo ''completed'' of
        Inl e \<Rightarrow> Inl e
      | Inr c \<Rightarrow>
          (case count_completed rest of
             Inl e \<Rightarrow> Inl e
           | Inr n \<Rightarrow> Inr (if truthy c then Suc n else n)))"

text \<open>
  Both branches assign \<open>this.data\<close> and save. The returned object is the one \<open>this.data\<close>
  refers to, so it carries the metadata that \<open>saveToFile\<close> has just recomputed.
\<close>

definition install_and_save ::
  "Runtime \<Rightarrow> validation_reason \<Rightarrow> TodoList \<Rightarrow> TodoStorage \<Rightarrow> World
     \<Rightarrow> TodoList result \<times> TodoStorage \<times> World" where
  "install_and_save rt reason migratedData st w =
     (case saveToFile rt (st\<lparr>data := migratedData\<rparr>) w of
        (Inl e, st', w') \<Rightarrow> (Inl (ValidationError reason), st', w')
      | (Inr u, st', w') \<Rightarrow> (Inr (data st'), st', w'))"

definition migrate_array ::
  "Runtime \<Rightarrow> json list \<Rightarrow> TodoStorage \<Rightarrow> World \<Rightarrow> TodoList result \<times> TodoStorage \<times> World" where
  "migrate_array rt rawData st w =
     (case migrate_todos rt rawData w of
        (Inl e, w1) \<Rightarrow> (Inl (ValidationError ArrayMigrationFailed), st, w1)
      | (Inr ts, w1) \<Rightarrow>
          (case count_completed rawData of
             Inl e \<Rightarrow> (Inl (ValidationError ArrayMigrationFailed), st, w1)
           | Inr n \<Rightarrow>
               install_and_save rt ArrayMigrationFailed
                 \<lparr>todos = ts,
                  metadata = \<lparr>version = ''1.0.0'', lastModified = getCurrentTimestamp rt w1,
                              totalCount = length rawData, completedCount = n\<rparr>\<rparr>
                 st w1))"

text \<open>
  The branch for an object with \<open>todos\<close> and no \<open>metadata\<close>. A truthy \<open>todos\<close> that is not
  an array has no \<open>filter\<close> method, and the call throws inside the \<open>try\<close>.
\<close>

definition migrate_no_metadata ::
  "Runtime \<Rightarrow> json option \<Rightarrow> TodoStorage \<Rightarrow> World \<Rightarrow> TodoList result \<times> TodoStorage \<times> World" where
  "migrate_no_metadata rt raw_todos st w =
     (case raw_todos of
        Some (JArr xs) \<Rightarrow>
          (case count_completed xs of
             Inl e \<Rightarrow> (Inl (ValidationError AddMetadataFailed), st, w)
           | Inr n \<Rightarrow>
               install_and_save rt AddMetadataFailed
                 \<lparr>todos = xs,
                  metadata = \<lparr>version = ''1.0.0'', lastModified = getCurrentTimestamp rt w,
                              totalCount = length xs, completedCount = n\<rparr>\<rparr>
                 st w)
      | _ \<Rightarrow> (Inl (ValidationError AddMetadataFailed), st, w))"

definition migrateData ::
  "Runtime \<Rightarrow> json \<Rightarrow> TodoStorage \<Rightarrow> World \<Rightarrow> TodoList result \<times> TodoStorage \<times> World" where
  "migrateData rt rawData st w =
     (case rawData of
        JArr xs \<Rightarrow> migrate_array rt xs st w
      | _ \<Rightarrow>
          (case get_prop rawData ''todos'' of
             Inl e \<Rightarrow> (Inl e, st, w)
           | Inr ts \<Rightarrow>
               if truthy ts \<and> \<not> truthy (field rawData ''metadata'')
               then migrate_no_metadata rt ts st w
               else (Inl (ValidationError UnsupportedFormat), st, w)))"

definition validateAndMigrate ::
  "Runtime \<Rightarrow> json \<Rightarrow> TodoStorage \<Rightarrow> World \<Rightarrow> TodoList result \<times> TodoStorage \<times> World" where
  "validateAndMigrate rt rawData st w =
     (case TodoListSchema_parse rt rawData of
        Some l \<Rightarrow> (Inr l, st, w)
      | None \<Rightarrow> migrateData rt rawData st w)"

subsection \<open>Loading and initialising\<close>

definition loadFromFile :: "Runtime \<Rightarrow> TodoStorage \<Rightarrow> World \<Rightarrow> unit result \<times> TodoStorage \<times> World" where
  "loadFromFile rt st w =
     (case fs_readFile (filePath st) w of
        (Inl e, w1) \<Rightarrow> (Inl e, st, w1)
      | (Inr fileContent, w1) \<Rightarrow>
          (case JSON_parse fileContent of
             Inl parseError \<Rightarrow>
               (Inl (FileError ReadOp (filePath st) (InvalidJSON parseError)), st, w1)
           | Inr rawData \<Rightarrow>
               (case validateAndMigrate rt rawData st w1 of
                  (Inl e, st2, w2) \<Rightarrow> (Inl e, st2, w2)
                | (Inr validatedData, st2, w2) \<Rightarrow> (Inr (), st2\<lparr>data := validatedData\<rparr>, w2))))"

text \<open>The outer \<open>catch\<close> of \<open>initialize\<close> and the assignment that ends each branch.\<close>

definition finish_initialize ::
  "unit result \<times> TodoStorage \<times> World \<Rightarrow> unit result \<times> TodoStorage \<times> World" where
  "finish_initialize r =
     (case r of
        (Inl e, st, w) \<Rightarrow> (Inl (StorageError (InitializeFailed e)), st, w)
      | (Inr u, st, w) \<Rightarrow> (Inr (), st\<lparr>isInitialized := True\<rparr>, w))"

definition initialize :: "Runtime \<Rightarrow> TodoStorage \<Rightarrow> World \<Rightarrow> unit result \<times> TodoStorage \<times> World" where
  "initialize rt st w =
     (case fs_mkdir w of
        (Inl e, w1) \<Rightarrow> (Inl (StorageError (InitializeFailed e)), st, w1)
      | (Inr u, w1) \<Rightarrow>
          (case loadFromFile rt st w1 of
             (Inr u, st2, w2) \<Rightarrow> finish_initialize (Inr (), st2, w2)
           | (Inl e, st2, w2) \<Rightarrow>
               if error_code e = Some ''ENOENT''
               then finish_initialize (saveToFile rt st2 w2)
               else finish_initialize (withRetry (loadFromFile rt) 3 1000 st2 w2)))"

subsection \<open>The public operations\<close>

definition ensureInitialized :: "TodoStorage \<Rightarrow> unit result" where
  "ensureInitialized st =
     (if \<not> isInitialized st then Inl (StorageError NotInitialized) else Inr ())"

definition getAllTodos :: "TodoStorage \<Rightarrow> json list result" where
  "getAllTodos st =
     (case ensureInitialized st of Inl e \<Rightarrow> Inl e | Inr u \<Rightarrow> Inr (todos (data st)))"

text \<open>
  \<open>findIndex((todo) => todo.id === id)\<close>, also the scan of \<open>find\<close> and \<open>some\<close>: the index
  of the first todo whose \<open>id\<close> is the string, \<open>None\<close> for \<open>-1\<close>.
\<close>

fun findIndex_id :: "json list \<Rightarrow> string \<Rightarrow> nat option result" where
  "findIndex_id [] i = Inr None"
| "findIndex_id (todo # rest) i =
     (case get_prop todo ''id'' of
        Inl e \<Rightarrow> Inl e
      | Inr v \<Rightarrow>
          if v = Some (JStr i) then Inr (Some 0)
          else (case findIndex_id rest i of
                  Inl e \<Rightarrow> Inl e
                | Inr r \<Rightarrow> Inr (map_option Suc r)))"

definition getTodoById :: "string \<Rightarrow> TodoStorage \<Rightarrow> json option result" where
  "getTodoById i st =
     (case ensureInitialized st of
        Inl e \<Rightarrow> Inl e
      | Inr u \<Rightarrow>
          (case findIndex_id (todos (data st)) i of
             Inl e \<Rightarrow> Inl e
           | Inr r \<Rightarrow> Inr (map_option (\<lambda>n. todos (data st) ! n) r)))"

definition addTodo ::
  "Runtime \<Rightarrow> Todo \<Rightarrow> TodoStorage \<Rightarrow> World \<Rightarrow> Todo result \<times> TodoStorage \<times> World" where
  "addTodo rt todo st w =
     (case ensureInitialized st of
        Inl e \<Rightarrow> (Inl e, st, w)
      | Inr u \<Rightarrow>
          if TodoSchema_parse rt (todo_json todo) = None
          then (Inl (ValidationError InvalidTodoData), st, w)
          else (case findIndex_id (todos (data st)) (todo_id todo) of
                  Inl e \<Rightarrow> (Inl e, st, w)
                | Inr (Some n) \<Rightarrow> (Inl (ValidationError (AlreadyExists (todo_id todo))), st, w)
                | Inr None \<Rightarrow>
                    (case saveToFile rt
                            (st\<lparr>data := (data st)\<lparr>todos := todos (data st) @ [todo_json todo]\<rparr>\<rparr>) w of
                       (Inl e, st', w') \<Rightarrow> (Inl e, st', w')
                     | (Inr u, st', w') \<Rightarrow> (Inr todo, st', w'))))"

definition updateTodo ::
  "Runtime \<Rightarrow> string \<Rightarrow> updates \<Rightarrow> TodoStorage \<Rightarrow> World
     \<Rightarrow> json result \<times> TodoStorage \<times> World" where
  "updateTodo rt i updates st w =
     (case ensureInitialized st of
        Inl e \<Rightarrow> (Inl e, st, w)
      | Inr u \<Rightarrow>
          (case findIndex_id (todos (data st)) i of
             Inl e \<Rightarrow> (Inl e, st, w)
           | Inr None \<Rightarrow> (Inl (NotFoundError ''todo'' i), st, w)
           | Inr (Some todoIndex) \<Rightarrow>
               (let existingTodo = todos (data st) ! todoIndex;
                    updatedTodo = TodoUtils_updateTodo rt w existingTodo updates
                in if TodoSchema_parse rt updatedTodo = None
                   then (Inl (ValidationError UpdatedTodoInvalid), st, w)
                   else (case saveToFile rt
                                 (st\<lparr>data := (data st)
                                      \<lparr>todos := (todos (data st))[todoIndex := updatedTodo]\<rparr>\<rparr>) w of
                           (Inl e, st', w') \<Rightarrow> (Inl e, st', w')
                         | (Inr u, st', w') \<Rightarrow> (Inr updatedTodo, st', w')))))"

definition deleteTodo ::
  "Runtime \<Rightarrow> string \<Rightarrow> TodoStorage \<Rightarrow> World \<Rightarrow> bool result \<times> TodoStorage \<times> World" where
  "deleteTodo rt i st w =
     (case ensureInitialized st of
        Inl e \<Rightarrow> (Inl e, st, w)
      | Inr u \<Rightarrow>
          (case findIndex_id (todos (data st)) i of
             Inl e \<Rightarrow> (Inl e, st, w)
           | Inr None \<Rightarrow> (Inr False, st, w)
           | Inr (Some todoIndex) \<Rightarrow>
               (case saveToFile rt
                       (st\<lparr>data := (data st)
                            \<lparr>todos := take todoIndex (todos (data st))
                                      @ drop (Suc todoIndex) (todos (data st))\<rparr>\<rparr>) w of
                  (Inl e, st', w') \<Rightarrow> (Inl e, st', w')
                | (Inr u, st', w') \<Rightarrow> (Inr True, st', w'))))"

definition getTodoList ::
  "Runtime \<Rightarrow> TodoStorage \<Rightarrow> World \<Rightarrow> TodoList result \<times> TodoStorage" where
  "getTodoList rt st w =
     (case ensureInitialized st of
        Inl e \<Rightarrow> (Inl e, st)
      | Inr u \<Rightarrow>
          (case updateMetadata rt w st of
             Inl e \<Rightarrow> (Inl e, st)
           | Inr st' \<Rightarrow> (Inr (data st'), st')))"

definition clearAllTodos ::
  "Runtime \<Rightarrow> TodoStorage \<Rightarrow> World \<Rightarrow> unit result \<times> TodoStorage \<times> World" where
  "clearAllTodos rt st w =
     (case ensureInitialized st of
        Inl e \<Rightarrow> (Inl e, st, w)
      | Inr u \<Rightarrow> saveToFile rt (st\<lparr>data := (data st)\<lparr>todos := []\<rparr>\<rparr>) w)"

definition getStats :: "Runtime \<Rightarrow> TodoStorage \<Rightarrow> World \<Rightarrow> Stats result" where
  "getStats rt st w =
     (case ensureInitialized st of
        Inl e \<Rightarrow> Inl e
      | Inr u \<Rightarrow> TodoUtils_getStats rt (now w) (todos (data st)))"

subsection \<open>Backup and restore\<close>

text \<open>
  \<open>s.replace(pat, rep)\<close> with a string pattern: the first occurrence is replaced, and a
  string without one is returned as it is. (The replacement used below is built from
  \<open>toISOString\<close>, which has no \<open>$\<close> pattern in it.)
\<close>

fun replace_first :: "string \<Rightarrow> string \<Rightarrow> string \<Rightarrow> string" where
  "replace_first pat rep [] = (if pat = [] then rep else [])"
| "replace_first pat rep (c # s) =
     (if take (length pat) (c # s) = pat then rep @ drop (length pat) (c # s)
      else c # replace_first pat rep s)"

text \<open>\<open>new Date().toISOString().replace(/[:.]/g, '-')\<close>\<close>

definition backup_timestamp :: "Runtime \<Rightarrow> World \<Rightarrow> string" where
  "backup_timestamp rt w =
     map (\<lambda>c. if c = CHR '':'' \<or> c = CHR ''.'' then CHR ''-'' else c) (toISOString rt (now w))"

definition backup_path :: "Runtime \<Rightarrow> World \<Rightarrow> string \<Rightarrow> string" where
  "backup_path rt w path =
     replace_first ''.json'' (''_backup_'' @ backup_timestamp rt w @ ''.json'') path"

definition createBackup :: "Runtime \<Rightarrow> TodoStorage \<Rightarrow> World \<Rightarrow> string result \<times> World" where
  "createBackup rt st w =
     (case ensureInitialized st of
        Inl e \<Rightarrow> (Inl e, w)
      | Inr u \<Rightarrow>
          (let backupPath = backup_path rt w (filePath st) in
           case fs_writeFile backupPath (TodoList_json (data st)) w of
             (Inl e, w') \<Rightarrow> (Inl (PlainError (BackupFailed e)), w')
           | (Inr u, w') \<Rightarrow> (Inr backupPath, w')))"

definition restoreFromBackup ::
  "Runtime \<Rightarrow> string \<Rightarrow> TodoStorage \<Rightarrow> World \<Rightarrow> unit result \<times> TodoStorage \<times> World" where
  "restoreFromBackup rt backupPath st w =
     (case fs_readFile backupPath w of
        (Inl e, w1) \<Rightarrow> (Inl (PlainError (RestoreFailed e)), st, w1)
      | (Inr fileContent, w1) \<Rightarrow>
          (case JSON_parse fileContent of
             Inl e \<Rightarrow> (Inl (PlainError (RestoreFailed e)), st, w1)
           | Inr rawData \<Rightarrow>
               (case validateAndMigrate rt rawData st w1 of
                  (Inl e, st2, w2) \<Rightarrow> (Inl (PlainError (RestoreFailed e)), st2, w2)
                | (Inr validatedData, st2, w2) \<Rightarrow>
                    (case saveToFile rt (st2\<lparr>data := validatedData\<rparr>) w2 of
                       (Inl e, st3, w3) \<Rightarrow> (Inl (PlainError (RestoreFailed e)), st3, w3)
                     | (Inr u, st3, w3) \<Rightarrow> (Inr (), st3, w3)))))"

section \<open>A runtime and a world to run the model on\<close>

text \<open>
  The theorems below hold for every runtime and world. To evaluate the model on concrete
  inputs, \<open>node\<close> is a runtime with the string formats as shape checks (a UUID is
  8-4-4-4-12 hexadecimal digits, a datetime is what \<open>toISOString\<close> writes, with or without
  milliseconds, a date is \<open>YYYY-MM-DD\<close>), \<open>toISOString\<close> by the proleptic Gregorian calendar
  for the years 1970 to 9999, and a date parser that reads these datetime and date strings
  as UTC.
\<close>

definition is_digit :: "char \<Rightarrow> bool" where
  "is_digit c = (c \<in> set ''0123456789'')"

definition is_hex :: "char \<Rightarrow> bool" where
  "is_hex c = (c \<in> set ''0123456789abcdefABCDEF'')"

text \<open>In a shape, \<open>9\<close> stands for a digit, \<open>x\<close> for a hexadecimal digit, other characters for themselves.\<close>

fun has_shape :: "string \<Rightarrow> string \<Rightarrow> bool" where
  "has_shape [] [] = True"
| "has_shape (p # ps) (c # cs) =
     ((if p = CHR ''9'' then is_digit c else if p = CHR ''x'' then is_hex c else c = p)
      \<and> has_shape ps cs)"
| "has_shape _ _ = False"

definition pad2 :: "nat \<Rightarrow> string" where
  "pad2 n = [digit (n div 10), digit n]"

definition pad3 :: "nat \<Rightarrow> string" where
  "pad3 n = [digit (n div 100), digit (n div 10), digit n]"

definition pad4 :: "nat \<Rightarrow> string" where
  "pad4 n = [digit (n div 1000), digit (n div 100), digit (n div 10), digit n]"

text \<open>
  Year, month and day of a day number counted from 1970-01-01, and back, in stages:
  the 400-year era and the day of the era, the year of the era, the day of the year
  (counted from March 1), the month.
\<close>

definition month_of :: "nat \<Rightarrow> nat" where
  "month_of mp = (if mp < 10 then mp + 3 else mp - 9)"

definition civil_of_mp :: "nat \<Rightarrow> nat \<Rightarrow> nat \<Rightarrow> nat \<times> nat \<times> nat" where
  "civil_of_mp y doy mp =
     (y + (if month_of mp \<le> 2 then 1 else 0), month_of mp, doy - (153 * mp + 2) div 5 + 1)"

definition civil_of_doy :: "nat \<Rightarrow> nat \<Rightarrow> nat \<times> nat \<times> nat" where
  "civil_of_doy y doy = civil_of_mp y doy ((5 * doy + 2) div 153)"

definition civil_of_yoe :: "nat \<Rightarrow> nat \<Rightarrow> nat \<Rightarrow> nat \<times> nat \<times> nat" where
  "civil_of_yoe era doe yoe =
     civil_of_doy (yoe + era * 400) (doe - (365 * yoe + yoe div 4 - yoe div 100))"

definition civil_of_doe :: "nat \<Rightarrow> nat \<Rightarrow> nat \<times> nat \<times> nat" where
  "civil_of_doe era doe =
     civil_of_yoe era doe ((doe - doe div 1460 + doe div 36524 - doe div 146096) div 365)"

definition civil_from_days :: "nat \<Rightarrow> nat \<times> nat \<times> nat" where
  "civil_from_days days =
     civil_of_doe ((days + 719468) div 146097) ((days + 719468) mod 146097)"

definition days_of :: "nat \<Rightarrow> nat \<Rightarrow> int" where
  "days_of y doy =
     int ((y div 400) * 146097
          + ((y mod 400) * 365 + (y mod 400) div 4 - (y mod 400) div 100 + doy)) - 719468"

definition days_from_civil :: "nat \<Rightarrow> nat \<Rightarrow> nat \<Rightarrow> int" where
  "days_from_civil y m d =
     days_of (if m \<le> 2 then y - 1 else y)
       ((153 * (if 2 < m then m - 3 else m + 9) + 2) div 5 + d - 1)"

fun iso_of :: "nat \<times> nat \<times> nat \<Rightarrow> nat \<Rightarrow> string" where
  "iso_of (y, m, d) ms =
     pad4 y @ ''-'' @ pad2 m @ ''-'' @ pad2 d @ ''T''
     @ pad2 (ms div 3600000) @ '':'' @ pad2 (ms div 60000 mod 60) @ '':''
     @ pad2 (ms div 1000 mod 60) @ ''.'' @ pad3 (ms mod 1000) @ ''Z''"

definition iso_string :: "nat \<Rightarrow> string" where
  "iso_string t = iso_of (civil_from_days (t div 86400000)) (t mod 86400000)"

definition digit_value :: "char \<Rightarrow> nat" where
  "digit_value c = length (takeWhile (\<lambda>d. d \<noteq> c) ''0123456789'')"

definition number_at :: "string \<Rightarrow> nat \<Rightarrow> nat \<Rightarrow> nat" where
  "number_at s i n = foldl (\<lambda>a c. 10 * a + digit_value c) 0 (take n (drop i s))"

definition day_ms :: "string \<Rightarrow> int" where
  "day_ms s = days_from_civil (number_at s 0 4) (number_at s 5 2) (number_at s 8 2) * 86400000"

definition time_ms :: "string \<Rightarrow> int" where
  "time_ms s = int (number_at s 11 2 * 3600 + number_at s 14 2 * 60 + number_at s 17 2) * 1000"

definition parse_date :: "string \<Rightarrow> int option" where
  "parse_date s =
     (if has_shape ''9999-99-99'' s then Some (day_ms s)
      else if has_shape ''9999-99-99T99:99:99Z'' s then Some (day_ms s + time_ms s)
      else if has_shape ''9999-99-99T99:99:99.999Z'' s
        then Some (day_ms s + time_ms s + int (number_at s 20 3))
      else None)"

definition node :: Runtime where
  "node =
     \<lparr>is_uuid = has_shape ''xxxxxxxx-xxxx-xxxx-xxxx-xxxxxxxxxxxx'',
      is_datetime = (\<lambda>s. has_shape ''9999-99-99T99:99:99.999Z'' s
                          \<or> has_shape ''9999-99-99T99:99:99Z'' s),
      is_date = has_shape ''9999-99-99'',
      toISOString = iso_string,
      Date_parse = parse_date\<rparr>"

text \<open>
  A world at 2023-11-14T22:13:20.000Z with the given files and fault script, nothing
  logged yet, and a fixed stream of UUIDs.
\<close>

definition uuid_stream :: "nat \<Rightarrow> string" where
  "uuid_stream n = ''00000000-0000-4000-8000-0000000000'' @ pad2 n"

definition world_with :: "(string \<Rightarrow> filedata option) \<Rightarrow> string option list \<Rightarrow> World" where
  "world_with fs script =
     \<lparr>files = fs, faults = script, now = 1700000000000, randomUUID = uuid_stream,
      drawn = 0, events = []\<rparr>"

section \<open>Notions used in the statements\<close>

text \<open>The ids of the stored todos: the \<open>id\<close> properties that are strings, in storage order.\<close>

definition todo_ids :: "json list \<Rightarrow> string list" where
  "todo_ids ts = concat (map (\<lambda>t. case field t ''id'' of Some (JStr i) \<Rightarrow> [i] | _ \<Rightarrow> []) ts)"

text \<open>
  A sequence of \<open>addTodo\<close> calls, each with the world it runs in (the clock, the files and
  the faults may be anything at each call); the results are dropped, the store is kept.
\<close>

fun run_adds :: "Runtime \<Rightarrow> (Todo \<times> World) list \<Rightarrow> TodoStorage \<Rightarrow> TodoStorage" where
  "run_adds rt [] st = st"
| "run_adds rt ((todo, w) # calls) st = run_adds rt calls (fst (snd (addTodo rt todo st w)))"

text \<open>The number of completed todos in a stored sequence.\<close>

definition completed_in :: "json list \<Rightarrow> nat" where
  "completed_in ts = length (filter (\<lambda>t. truthy (field t ''completed'')) ts)"

text \<open>The metadata of an aggregate has been recomputed from its todos in the world \<open>w\<close>.\<close>

definition recomputed :: "Runtime \<Rightarrow> World \<Rightarrow> TodoList \<Rightarrow> bool" where
  "recomputed rt w l =
     (totalCount (metadata l) = length (todos l)
      \<and> completedCount (metadata l) = completed_in (todos l)
      \<and> lastModified (metadata l) = toISOString rt (now w))"

text \<open>
  Overdue, in the words of the specification: the todo has a due date strictly before the
  current moment \<open>t\<close> and is not completed.
\<close>

definition overdue_at :: "Runtime \<Rightarrow> nat \<Rightarrow> Todo \<Rightarrow> bool" where
  "overdue_at rt t todo =
     (\<not> completed todo
      \<and> (case dueDate todo of
            None \<Rightarrow> False
          | Some d \<Rightarrow> (case Date_of rt (JStr d) of None \<Rightarrow> False | Some ms \<Rightarrow> ms < int t)))"

text \<open>
  The coercion rules of the array migration for a legacy element \<open>e\<close> and its migrated
  todo \<open>m\<close>. \<open>kept_or x d y\<close>: the migrated property \<open>y\<close> is the legacy value \<open>x\<close> when that
  is truthy, and the default \<open>d\<close> when it is missing or falsy. \<open>w\<close> and \<open>w'\<close> are the worlds
  before and after the migration, so a generated id is one of the UUIDs drawn in between.
\<close>

definition kept_or :: "json option \<Rightarrow> json \<Rightarrow> json option \<Rightarrow> bool" where
  "kept_or x d y = (if truthy x then y = x else y = Some d)"

definition coerced :: "Runtime \<Rightarrow> World \<Rightarrow> World \<Rightarrow> json \<Rightarrow> json \<Rightarrow> bool" where
  "coerced rt w w' e m =
     ((if truthy (field e ''id'') then field m ''id'' = field e ''id''
       else (\<exists>n \<in> {drawn w ..< drawn w'}. field m ''id'' = Some (JStr (randomUUID w n))))
      \<and> kept_or (field e ''title'') (JStr ''Untitled'') (field m ''title'')
      \<and> kept_or (field e ''description'') (JStr []) (field m ''description'')
      \<and> field m ''completed'' = Some (JBool (truthy (field e ''completed'')))
      \<and> kept_or (field e ''createdAt'') (JStr (toISOString rt (now w))) (field m ''createdAt'')
      \<and> kept_or (field e ''updatedAt'') (JStr (toISOString rt (now w))) (field m ''updatedAt'')
      \<and> field m ''dueDate'' = (if truthy (field e ''dueDate'') then field e ''dueDate'' else None)
      \<and> kept_or (field e ''priority'') (JStr ''medium'') (field m ''priority'')
      \<and> field m ''tags'' =
           Some (case field e ''tags'' of Some (JArr ys) \<Rightarrow> JArr ys | _ \<Rightarrow> JArr []))"

text \<open>
  The value that an \<open>updates\<close> object holds for a key: \<open>None\<close> when it has no such
  property, \<open>Some None\<close> when the property is there with the value \<open>undefined\<close>.
\<close>

definition update_prop :: "updates \<Rightarrow> string \<Rightarrow> json option option" where
  "update_prop u k = map_of (rev u) k"

text \<open>
  The declared type of the \<open>updates\<close> parameter, \<open>Partial<Omit<Todo, 'id'>>\<close>: every
  property is a field of a Todo other than \<open>id\<close>, and holds \<open>undefined\<close> or a value of the
  field's type.
\<close>

definition is_string :: "json \<Rightarrow> bool" where
  "is_string x = (case x of JStr s \<Rightarrow> True | _ \<Rightarrow> False)"

definition field_typed :: "string \<Rightarrow> json \<Rightarrow> bool" where
  "field_typed k x =
     (if k = ''completed'' then (case x of JBool b \<Rightarrow> True | _ \<Rightarrow> False)
      else if k = ''priority'' then (case x of JStr s \<Rightarrow> priority_of_name s \<noteq> None | _ \<Rightarrow> False)
      else if k = ''tags'' then (case x of JArr xs \<Rightarrow> list_all is_string xs | _ \<Rightarrow> False)
      else is_string x)"

definition TodoUpdates_typed :: "updates \<Rightarrow> bool" where
  "TodoUpdates_typed u =
     list_all (\<lambda>(k, v).
        k \<in> set [''title'', ''description'', ''completed'', ''createdAt'', ''updatedAt'',
                  ''dueDate'', ''priority'', ''tags'']
        \<and> (case v of None \<Rightarrow> True | Some x \<Rightarrow> field_typed k x)) u"

text \<open>\<open>s.indexOf(pat)\<close>: where the first occurrence of \<open>pat\<close> in \<open>s\<close> starts.\<close>

fun indexOf :: "string \<Rightarrow> string \<Rightarrow> nat option" where
  "indexOf pat [] = (if pat = [] then Some 0 else None)"
| "indexOf pat (c # s) =
     (if take (length pat) (c # s) = pat then Some 0 else map_option Suc (indexOf pat s))"

subsection \<open>Example data\<close>

definition store_path :: string where
  "store_path = ''./todos.json''"

definition milk :: Todo where
  "milk =
     \<lparr>todo_id = ''123e4567-e89b-42d3-a456-426614174000'', title = ''Buy milk'',
      description = [], completed = False,
      createdAt = ''2023-11-01T09:00:00.000Z'', updatedAt = ''2023-11-05T10:30:00.000Z'',
      dueDate = None, priority = Medium, tags = []\<rparr>"

text \<open>An initialised store that holds the todos \<open>ts\<close>, with metadata that matches.\<close>

definition store_of :: "string \<Rightarrow> Todo list \<Rightarrow> TodoStorage" where
  "store_of path ts =
     \<lparr>filePath = path,
      data = \<lparr>todos = map todo_json ts,
              metadata = \<lparr>version = ''1.0.0'', lastModified = ''2023-11-05T10:30:00.000Z'',
                          totalCount = length ts,
                          completedCount = length (filter completed ts)\<rparr>\<rparr>,
      isInitialized = True\<rparr>"

text \<open>The legacy file of the specification's fourth scenario.\<close>

definition legacy_array :: json where
  "legacy_array =
     JArr [JObj [(''id'', JStr ''a''), (''title'', JStr ''Old''), (''completed'', JBool True)]]"

text \<open>A file that satisfies the schema while its counts disagree with its (empty) todo list.\<close>

definition miscounted_document :: json where
  "miscounted_document =
     JObj [(''todos'', JArr []),
           (''metadata'', JObj [(''version'', JStr ''1.0.0''),
                                (''lastModified'', JStr ''2023-11-05T10:30:00.000Z''),
                                (''totalCount'', JNum 5),
                                (''completedCount'', JNum 2)])]"

text \<open>The store after it has loaded \<open>miscounted_document\<close>: the counts are the file's.\<close>

definition miscounted_store :: TodoStorage where
  "miscounted_store =
     \<lparr>filePath = store_path,
      data = \<lparr>todos = [],
              metadata = \<lparr>version = ''1.0.0'', lastModified = ''2023-11-05T10:30:00.000Z'',
                          totalCount = 5, completedCount = 2\<rparr>\<rparr>,
      isInitialized = True\<rparr>"

section \<open>Facts and claims\<close>

subsection \<open>File system calls and saving\<close>


lemma fs_call_frame:
  "fs_call ev w = (f, w') \<Longrightarrow>
     files w' = files w \<and> now w' = now w \<and> randomUUID w' = randomUUID w \<and> drawn w' = drawn w
     \<and> events w' = events w @ [ev] \<and> faults w' = tl (faults w)
     \<and> f = (case faults w of [] \<Rightarrow> None | x # xs \<Rightarrow> x)"
  by (auto simp: fs_call_def split: list.splits)

lemma fs_writeFile_frame:
  "fs_writeFile p d w = (r, w') \<Longrightarrow>
     now w' = now w \<and> randomUUID w' = randomUUID w \<and> drawn w' = drawn w
     \<and> events w' = events w @ [WriteFile p] \<and> faults w' = tl (faults w)
     \<and> (case r of Inr u \<Rightarrow> files w' = (files w)(p \<mapsto> Document d) | Inl e \<Rightarrow> files w' = files w)"
  by (auto simp: fs_writeFile_def split: prod.splits option.splits dest!: fs_call_frame)

lemma withRetry_write_frame:
  "withRetry_from (write_op p d) m dl a le st w = (r, st', w') \<Longrightarrow>
     st' = st \<and> randomUUID w' = randomUUID w \<and> drawn w' = drawn w
     \<and> (case r of Inr u \<Rightarrow> files w' = (files w)(p \<mapsto> Document d) | Inl e \<Rightarrow> files w' = files w)"
proof (induction "write_op p d" m dl a le st w arbitrary: r st' w' rule: withRetry_from.induct)
  case (1 maxRetries delayMs attempt lastError st w)
  show ?case
  proof (cases "attempt \<le> maxRetries")
    case False
    with "1.prems" show ?thesis by (auto simp: withRetry_from.simps)
  next
    case True
    obtain r1 w1 where w1: "fs_writeFile p d w = (r1, w1)" by (cases "fs_writeFile p d w")
    note fr = fs_writeFile_frame [OF w1]
    have op: "write_op p d st w = (r1, st, w1)" by (simp add: write_op_def w1)
    show ?thesis
    proof (cases r1)
      case (Inr u)
      with "1.prems" True op fr show ?thesis by (auto simp: withRetry_from.simps)
    next
      case (Inl e)
      show ?thesis
      proof (cases "is_ValidationError e \<or> is_NotFoundError e \<or> attempt = maxRetries")
        case True
        with "1.prems" \<open>attempt \<le> maxRetries\<close> op fr Inl show ?thesis
          by (auto simp: withRetry_from.simps split: if_splits)
      next
        case False
        with "1.prems" \<open>attempt \<le> maxRetries\<close> op Inl
        have rec: "withRetry_from (write_op p d) maxRetries delayMs (attempt + 1) (Some e) st
                     (sleep (delayMs * 2 ^ (attempt - 1)) w1) = (r, st', w')"
          by (simp add: withRetry_from.simps)
        from "1.hyps" [OF \<open>attempt \<le> maxRetries\<close> _ _ _ _ _ rec] op Inl False
        have "st' = st \<and> randomUUID w' = randomUUID (sleep (delayMs * 2 ^ (attempt - 1)) w1)
              \<and> drawn w' = drawn (sleep (delayMs * 2 ^ (attempt - 1)) w1)
              \<and> (case r of Inr u \<Rightarrow> files w' = (files (sleep (delayMs * 2 ^ (attempt - 1)) w1))(p \<mapsto> Document d)
                  | Inl e \<Rightarrow> files w' = files (sleep (delayMs * 2 ^ (attempt - 1)) w1))"
          by simp
        with fr Inl show ?thesis by (auto simp: sleep_def split: sum.splits)
      qed
    qed
  qed
qed

lemma stats_forEach_counts:
  "stats_forEach rt t ts s = Inr s' \<Longrightarrow>
     total s' = total s
     \<and> completed_count s' = completed_count s + length (filter (\<lambda>x. truthy (field x ''completed'')) ts)"
proof (induction ts arbitrary: s)
  case Nil
  then show ?case by simp
next
  case (Cons todo rest)
  from Cons.prems obtain s1 where
    step: "stats_forEach rt t rest s1 = Inr s'"
    and s1: "total s1 = total s"
      "completed_count s1 = completed_count s + (if truthy (field todo ''completed'') then 1 else 0)"
    by (auto simp: get_prop_def split: sum.splits if_splits)
  from Cons.IH [OF step] s1 show ?case by simp
qed

lemma isOverdue_nonnull:
  "todo \<noteq> JNull \<Longrightarrow>
     isOverdue rt t todo =
       Inr (case field todo ''dueDate'' of
              None \<Rightarrow> False
            | Some d \<Rightarrow> truthy (Some d)
                \<and> (case Date_of rt d of Some ms \<Rightarrow> ms < int t | None \<Rightarrow> False)
                \<and> \<not> truthy (field todo ''completed''))"
  by (simp add: isOverdue_def get_prop_def split: option.split)

lemma stats_forEach_total:
  "JNull \<notin> set ts \<Longrightarrow> \<exists>s'. stats_forEach rt t ts s = Inr s'"
proof (induction ts arbitrary: s)
  case Nil
  then show ?case by simp
next
  case (Cons todo rest)
  then have nn: "todo \<noteq> JNull" and rest: "JNull \<notin> set rest" by auto
  show ?case using nn isOverdue_nonnull [OF nn] Cons.IH [OF rest] by (simp add: get_prop_def)
qed

lemma getStats_counts:
  "TodoUtils_getStats rt t ts = Inr s \<Longrightarrow>
     total s = length ts
     \<and> completed_count s = length (filter (\<lambda>x. truthy (field x ''completed'')) ts)"
  by (auto simp: TodoUtils_getStats_def dest!: stats_forEach_counts)

lemma updateMetadata_Inr:
  "updateMetadata rt w st = Inr st' \<Longrightarrow>
     filePath st' = filePath st \<and> isInitialized st' = isInitialized st
     \<and> todos (data st') = todos (data st)
     \<and> version (metadata (data st')) = version (metadata (data st))
     \<and> lastModified (metadata (data st')) = getCurrentTimestamp rt w
     \<and> totalCount (metadata (data st')) = length (todos (data st))
     \<and> completedCount (metadata (data st'))
         = length (filter (\<lambda>x. truthy (field x ''completed'')) (todos (data st)))"
  by (auto simp: updateMetadata_def split: sum.splits dest!: getStats_counts)

lemma updateMetadata_total:
  assumes "JNull \<notin> set (todos (data st))"
  shows "\<exists>st'. updateMetadata rt w st = Inr st'"
proof -
  from stats_forEach_total [OF assms]
  obtain s where "TodoUtils_getStats rt (now w) (todos (data st)) = Inr s"
    unfolding TodoUtils_getStats_def by blast
  then show ?thesis by (simp add: updateMetadata_def)
qed

lemma saveToFile_frame:
  "saveToFile rt st w = (r, st', w') \<Longrightarrow>
     filePath st' = filePath st \<and> isInitialized st' = isInitialized st
     \<and> todos (data st') = todos (data st)
     \<and> randomUUID w' = randomUUID w \<and> drawn w' = drawn w"
  by (auto simp: saveToFile_def withRetry_def split: sum.splits prod.splits
           dest!: updateMetadata_Inr withRetry_write_frame)

lemma saveToFile_Inr:
  "saveToFile rt st w = (Inr u, st', w') \<Longrightarrow>
     updateMetadata rt w st = Inr st'
     \<and> files w' = (files w)(filePath st \<mapsto> Document (TodoList_json (data st')))"
  by (auto simp: saveToFile_def withRetry_def split: sum.splits prod.splits
           dest!: withRetry_write_frame dest: updateMetadata_Inr)

lemma saveToFile_Inl:
  "saveToFile rt st w = (Inl e, st', w') \<Longrightarrow>
     (\<exists>x. e = FileError WriteOp (filePath st) (SaveFailed x)) \<and> files w' = files w"
  by (auto simp: saveToFile_def withRetry_def split: sum.splits prod.splits
           dest!: withRetry_write_frame)

subsection \<open>Well-typed todos and statistics\<close>



lemma todo_json_not_null [simp]: "todo_json t \<noteq> JNull" "JNull \<noteq> todo_json t"
  by (simp_all add: todo_json_def)

lemma field_todo_json:
  "field (todo_json t) ''id'' = Some (JStr (todo_id t))"
  "field (todo_json t) ''title'' = Some (JStr (title t))"
  "field (todo_json t) ''description'' = Some (JStr (description t))"
  "field (todo_json t) ''completed'' = Some (JBool (completed t))"
  "field (todo_json t) ''createdAt'' = Some (JStr (createdAt t))"
  "field (todo_json t) ''updatedAt'' = Some (JStr (updatedAt t))"
  "field (todo_json t) ''dueDate'' = map_option JStr (dueDate t)"
  "field (todo_json t) ''priority'' = Some (JStr (priority_name (priority t)))"
  "field (todo_json t) ''tags'' = Some (JArr (map JStr (tags t)))"
  by (simp_all add: todo_json_def split: option.split)

lemma bump_priority_name:
  "bump (Some (JStr (priority_name p))) b =
     \<lparr>low = low b + (if p = Low then 1 else 0),
      medium = medium b + (if p = Medium then 1 else 0),
      high = high b + (if p = High then 1 else 0)\<rparr>"
  by (cases p) (simp_all add: bump_def)

lemma isOverdue_todo_json:
  "isOverdue rt t (todo_json todo) = Inr (overdue_at rt t todo)"
  by (cases "dueDate todo")
     (auto simp: isOverdue_nonnull field_todo_json overdue_at_def Date_of_def Date_string_def
           split: option.splits)

lemma stats_forEach_typed:
  "stats_forEach rt t (map todo_json ts) s =
     Inr \<lparr>total = total s,
          completed_count = completed_count s + length (filter completed ts),
          overdue = overdue s + length (filter (overdue_at rt t) ts),
          byPriority =
            \<lparr>low = low (byPriority s) + length (filter (\<lambda>x. priority x = Low) ts),
             medium = medium (byPriority s) + length (filter (\<lambda>x. priority x = Medium) ts),
             high = high (byPriority s) + length (filter (\<lambda>x. priority x = High) ts)\<rparr>\<rparr>"
proof (induction ts arbitrary: s)
  case Nil
  show ?case by simp
next
  case (Cons a ts)
  show ?case
    by (simp add: Cons.IH get_prop_def field_todo_json isOverdue_todo_json bump_priority_name)
qed

lemma priority_partition:
  "length (filter (\<lambda>x. priority x = Low) ts) + length (filter (\<lambda>x. priority x = Medium) ts)
     + length (filter (\<lambda>x. priority x = High) ts) = length (ts :: Todo list)"
proof (induction ts)
  case Nil
  show ?case by simp
next
  case (Cons a ts)
  then show ?case by (cases "priority a") simp_all
qed

text \<open>
  C7. For every sequence of Todos, \<open>getStats\<close> returns \<open>total\<close> equal to the length of the
  sequence, \<open>completed\<close> equal to the number of completed Todos, \<open>overdue\<close> equal to the
  number of Todos that have a due date strictly before the current moment and are not
  completed, and the three \<open>byPriority\<close> buckets, whose counts sum to \<open>total\<close>. The store's
  \<open>getStats\<close> on an initialised store is \<open>TodoUtils.getStats\<close> of the stored sequence at the
  current time.
\<close>

theorem getStats_correct:
  "TodoUtils_getStats rt t (map todo_json ts) =
     Inr \<lparr>total = length ts,
          completed_count = length (filter completed ts),
          overdue = length (filter (overdue_at rt t) ts),
          byPriority =
            \<lparr>low = length (filter (\<lambda>x. priority x = Low) ts),
             medium = length (filter (\<lambda>x. priority x = Medium) ts),
             high = length (filter (\<lambda>x. priority x = High) ts)\<rparr>\<rparr>
   \<and> length (filter (\<lambda>x. priority x = Low) ts) + length (filter (\<lambda>x. priority x = Medium) ts)
       + length (filter (\<lambda>x. priority x = High) ts) = length ts
   \<and> getStats rt (st\<lparr>data := (data st)\<lparr>todos := map todo_json ts\<rparr>, isInitialized := True\<rparr>) w
       = TodoUtils_getStats rt (now w) (map todo_json ts)"
  by (simp add: TodoUtils_getStats_def stats_forEach_typed priority_partition getStats_def
                ensureInitialized_def)

subsection \<open>Adding a todo\<close>


lemma todo_ids_append: "todo_ids (xs @ ys) = todo_ids xs @ todo_ids ys"
  by (simp add: todo_ids_def)

lemma todo_ids_todo_json: "todo_ids [todo_json t] = [todo_id t]"
  by (simp add: todo_ids_def field_todo_json)

lemma todo_ids_Cons:
  "todo_ids (x # xs) = (case field x ''id'' of Some (JStr i) \<Rightarrow> [i] | _ \<Rightarrow> []) @ todo_ids xs"
  by (simp add: todo_ids_def)

lemma findIndex_id_None: "findIndex_id ts i = Inr None \<Longrightarrow> i \<notin> set (todo_ids ts)"
proof (induction ts)
  case Nil
  show ?case by (simp add: todo_ids_def)
next
  case (Cons x xs)
  from Cons.prems have "field x ''id'' \<noteq> Some (JStr i)" and "findIndex_id xs i = Inr None"
    by (auto simp: get_prop_def split: if_splits sum.splits)
  with Cons.IH show ?case
    by (auto simp: todo_ids_Cons split: option.splits json.splits)
qed

lemma findIndex_id_Some:
  "findIndex_id ts i = Inr (Some n) \<Longrightarrow> n < length ts \<and> field (ts ! n) ''id'' = Some (JStr i)"
proof (induction ts arbitrary: n)
  case Nil
  then show ?case by simp
next
  case (Cons x xs)
  show ?case
  proof (cases "field x ''id'' = Some (JStr i)")
    case True
    with Cons.prems show ?thesis by (auto simp: get_prop_def split: if_splits)
  next
    case False
    with Cons.prems obtain m where "findIndex_id xs i = Inr (Some m)" and "n = Suc m"
      by (auto simp: get_prop_def split: if_splits sum.splits)
    with Cons.IH [of m] show ?thesis by simp
  qed
qed

lemma findIndex_id_found:
  "JNull \<notin> set ts \<Longrightarrow> i \<in> set (todo_ids ts) \<Longrightarrow> \<exists>n. findIndex_id ts i = Inr (Some n)"
proof (induction ts)
  case Nil
  then show ?case by (simp add: todo_ids_def)
next
  case (Cons x xs)
  then have nn: "x \<noteq> JNull" "JNull \<notin> set xs" by auto
  show ?case
  proof (cases "field x ''id'' = Some (JStr i)")
    case True
    with nn show ?thesis by (simp add: get_prop_def)
  next
    case False
    with Cons.prems have "i \<in> set (todo_ids xs)"
      by (auto simp: todo_ids_Cons split: option.splits json.splits)
    from Cons.IH [OF nn(2) this] obtain n where "findIndex_id xs i = Inr (Some n)" ..
    with nn False show ?thesis by (simp add: get_prop_def)
  qed
qed

lemma addTodo_todos:
  "addTodo rt t st w = (r, st', w') \<Longrightarrow>
     todos (data st') = todos (data st)
     \<or> (todo_id t \<notin> set (todo_ids (todos (data st)))
         \<and> todos (data st') = todos (data st) @ [todo_json t])"
  by (auto simp: addTodo_def split: sum.splits if_splits option.splits prod.splits
           dest!: saveToFile_frame findIndex_id_None)

lemma addTodo_distinct:
  assumes "distinct (todo_ids (todos (data st)))"
  shows "distinct (todo_ids (todos (data (fst (snd (addTodo rt t st w))))))"
proof -
  obtain r st' w' where run: "addTodo rt t st w = (r, st', w')"
    by (cases "addTodo rt t st w")
  from addTodo_todos [OF run] assms show ?thesis
    by (auto simp: run todo_ids_append todo_ids_todo_json)
qed

lemma run_adds_distinct:
  "distinct (todo_ids (todos (data st))) \<Longrightarrow>
     distinct (todo_ids (todos (data (run_adds rt calls st))))"
proof (induction calls arbitrary: st)
  case Nil
  then show ?case by simp
next
  case (Cons c calls)
  obtain t w where c: "c = (t, w)" by (cases c)
  from Cons.IH [OF addTodo_distinct [OF Cons.prems]] show ?case by (simp add: c)
qed

lemma addTodo_duplicate:
  assumes "isInitialized st" and "JNull \<notin> set (todos (data st))"
    and "todo_id todo \<in> set (todo_ids (todos (data st)))"
  shows "addTodo rt todo st w =
           (Inl (ValidationError (if TodoSchema_parse rt (todo_json todo) = None
                                  then InvalidTodoData else AlreadyExists (todo_id todo))), st, w)"
proof -
  from findIndex_id_found [OF assms(2,3)]
  obtain n where "findIndex_id (todos (data st)) (todo_id todo) = Inr (Some n)" ..
  with assms(1) show ?thesis by (simp add: addTodo_def ensureInitialized_def)
qed

lemma parse_milk: "TodoSchema_parse node (todo_json milk) = Some milk"
  by (simp add: TodoSchema_parse_def todo_json_def milk_def node_def z_format_def z_string_def
        z_title_def z_description_def z_completed_def z_dueDate_def z_priority_def z_tags_def
        priority_of_name_def is_hex_def is_digit_def)

text \<open>
  C5 (amended). Starting from stored todos with distinct ids, no sequence of \<open>addTodo\<close>
  calls ever makes two stored Todos share an id. On an initialised store whose todo
  sequence holds no \<open>null\<close>, an \<open>addTodo\<close> whose id equals that of an already-stored Todo
  always fails with a ValidationError and leaves the store and the world as they were,
  nothing persisted; the message is "already exists" when the new Todo satisfies the
  schema and "Invalid todo data" when it does not, since the schema is checked first.
\<close>

theorem addTodo_rejects_duplicate:
  "(isInitialized st \<and> JNull \<notin> set (todos (data st))
      \<and> todo_id todo \<in> set (todo_ids (todos (data st))) \<longrightarrow>
      addTodo rt todo st w =
        (Inl (ValidationError (if TodoSchema_parse rt (todo_json todo) = None
                               then InvalidTodoData else AlreadyExists (todo_id todo))), st, w))
   \<and> (distinct (todo_ids (todos (data st))) \<longrightarrow>
        distinct (todo_ids (todos (data (run_adds rt calls st)))))"
  using addTodo_duplicate [of st todo rt w] run_adds_distinct [of st rt calls] by blast

lemma store_of_milk_ids: "todo_ids (todos (data (store_of p [milk]))) = [todo_id milk]"
  by (simp add: store_of_def todo_ids_todo_json)

text \<open>
  The witness: the store holds \<open>milk\<close>; adding \<open>milk\<close> again is refused as already
  existing, and two such calls leave the ids distinct.
\<close>

theorem addTodo_rejects_duplicate_witness:
  "isInitialized (store_of store_path [milk])
   \<and> JNull \<notin> set (todos (data (store_of store_path [milk])))
   \<and> todo_id milk \<in> set (todo_ids (todos (data (store_of store_path [milk]))))
   \<and> addTodo node milk (store_of store_path [milk]) (world_with Map.empty []) =
       (Inl (ValidationError (AlreadyExists (todo_id milk))),
        store_of store_path [milk], world_with Map.empty [])
   \<and> distinct (todo_ids (todos (data (store_of store_path [milk]))))
   \<and> distinct (todo_ids (todos (data
        (run_adds node [(milk, world_with Map.empty []), (milk, world_with Map.empty [])]
           (store_of store_path [milk])))))"
proof -
  have pre: "isInitialized (store_of store_path [milk])
      \<and> JNull \<notin> set (todos (data (store_of store_path [milk])))
      \<and> todo_id milk \<in> set (todo_ids (todos (data (store_of store_path [milk]))))"
    by (simp add: store_of_milk_ids) (simp add: store_of_def)
  have d: "distinct (todo_ids (todos (data (store_of store_path [milk]))))"
    by (simp add: store_of_milk_ids)
  from addTodo_rejects_duplicate
         [of "store_of store_path [milk]" milk node "world_with Map.empty []"
             "[(milk, world_with Map.empty []), (milk, world_with Map.empty [])]"]
       pre d
  show ?thesis by (simp add: parse_milk)
qed

text \<open>
  Against C5 as it was stated: a todo with the stored id and an empty title is refused as
  invalid data, not as already existing.
\<close>

theorem addTodo_duplicate_message_counterexample:
  "todo_id (milk\<lparr>title := []\<rparr>) \<in> set (todo_ids (todos (data (store_of store_path [milk]))))
   \<and> fst (addTodo node (milk\<lparr>title := []\<rparr>) (store_of store_path [milk])
             (world_with Map.empty []))
       = Inl (ValidationError InvalidTodoData)"
proof -
  have "TodoSchema_parse node (todo_json (milk\<lparr>title := []\<rparr>)) = None"
    by (simp add: TodoSchema_parse_def todo_json_def milk_def node_def z_format_def z_string_def
          z_title_def is_hex_def)
  then show ?thesis
    by (simp add: addTodo_def ensureInitialized_def store_of_milk_ids) (simp add: store_of_def)
qed

subsection \<open>Migration\<close>

lemma generateId_frame:
  "generateId w = (u, w') \<Longrightarrow>
     u = randomUUID w (drawn w) \<and> drawn w' = Suc (drawn w) \<and> files w' = files w
     \<and> faults w' = faults w \<and> now w' = now w \<and> events w' = events w
     \<and> randomUUID w' = randomUUID w"
  by (auto simp: generateId_def)

lemma kept_or_or_else: "kept_or x d (Some (or_else x d))"
  by (cases x) (auto simp: kept_or_def or_else_def truthy_value_def)

lemma migrate_todo_Inr:
  assumes "migrate_todo rt e w = (Inr m, w1)"
  shows "e \<noteq> JNull \<and> m \<noteq> JNull \<and> files w1 = files w \<and> faults w1 = faults w \<and> now w1 = now w
         \<and> events w1 = events w \<and> randomUUID w1 = randomUUID w
         \<and> drawn w \<le> drawn w1 \<and> coerced rt w w1 e m"
proof -
  from assms have nn: "e \<noteq> JNull"
    by (auto simp: migrate_todo_def get_prop_def split: if_splits)
  show ?thesis
  proof (cases "truthy (field e ''id'')")
    case False
    then have "truthy_value (field e ''id'') = None" by (simp add: truthy_value_def)
    with assms nn False show ?thesis
      by (auto simp: migrate_todo_def get_prop_def generateId_def coerced_def kept_or_or_else
            getCurrentTimestamp_def entry_def truthy_value_def split: option.splits)
  next
    case True
    then have "\<exists>v. truthy_value (field e ''id'') = Some v \<and> field e ''id'' = Some v"
      by (cases "field e ''id''") (simp_all add: truthy_value_def)
    then obtain v where "truthy_value (field e ''id'') = Some v" and "field e ''id'' = Some v"
      by blast
    with assms nn True show ?thesis
      by (auto simp: migrate_todo_def get_prop_def coerced_def kept_or_or_else
            getCurrentTimestamp_def entry_def truthy_value_def split: option.splits)
  qed
qed

lemma coerced_mono:
  assumes c: "coerced rt wa wb e m"
    and le: "drawn w \<le> drawn wa" "drawn wb \<le> drawn w'"
    and same: "randomUUID wa = randomUUID w" "now wa = now w"
  shows "coerced rt w w' e m"
proof -
  have "if truthy (field e ''id'') then field m ''id'' = field e ''id''
        else (\<exists>n \<in> {drawn w ..< drawn w'}. field m ''id'' = Some (JStr (randomUUID w n)))"
  proof (cases "truthy (field e ''id'')")
    case True
    with c show ?thesis unfolding coerced_def by simp
  next
    case False
    with c obtain n where "n \<in> {drawn wa ..< drawn wb}"
      and "field m ''id'' = Some (JStr (randomUUID wa n))"
      unfolding coerced_def by auto
    with le same have "\<exists>n \<in> {drawn w ..< drawn w'}. field m ''id'' = Some (JStr (randomUUID w n))"
      by (intro bexI [of _ n]) auto
    with False show ?thesis by simp
  qed
  with c same show ?thesis unfolding coerced_def by simp
qed

lemma migrate_todos_Inr:
  "migrate_todos rt xs w = (Inr ts, w1) \<Longrightarrow>
     length ts = length xs \<and> JNull \<notin> set ts \<and> files w1 = files w \<and> faults w1 = faults w
     \<and> now w1 = now w \<and> events w1 = events w \<and> randomUUID w1 = randomUUID w
     \<and> drawn w \<le> drawn w1 \<and> (\<forall>n<length xs. coerced rt w w1 (xs ! n) (ts ! n))"
proof (induction xs arbitrary: ts w)
  case Nil
  then show ?case by auto
next
  case (Cons e xs)
  from Cons.prems obtain m wa ms where
    hd: "migrate_todo rt e w = (Inr m, wa)"
    and tl: "migrate_todos rt xs wa = (Inr ms, w1)"
    and ts: "ts = m # ms"
    by (auto split: prod.splits sum.splits)
  note h = migrate_todo_Inr [OF hd]
  note t = Cons.IH [OF tl]
  have first: "coerced rt w w1 e m"
    using h t by (auto intro: coerced_mono [of rt w wa e m w w1])
  have rest: "\<forall>n<length xs. coerced rt w w1 (xs ! n) (ms ! n)"
    using h t by (auto intro: coerced_mono [of rt wa w1 _ _ w w1])
  have "\<forall>n<length (e # xs). coerced rt w w1 ((e # xs) ! n) (ts ! n)"
  proof (intro allI impI)
    fix n assume "n < length (e # xs)"
    then show "coerced rt w w1 ((e # xs) ! n) (ts ! n)"
      using first rest by (cases n) (auto simp: ts)
  qed
  with h t show ?case by (auto simp: ts)
qed

lemma migrate_todo_total: "e \<noteq> JNull \<Longrightarrow> \<exists>m wa. migrate_todo rt e w = (Inr m, wa)"
  by (cases "truthy_value (field e ''id'')")
     (simp_all add: migrate_todo_def get_prop_def generateId_def)

lemma migrate_todos_total:
  "JNull \<notin> set xs \<Longrightarrow> \<exists>ts w1. migrate_todos rt xs w = (Inr ts, w1)"
proof (induction xs arbitrary: w)
  case Nil
  show ?case by simp
next
  case (Cons e xs)
  then have nn: "e \<noteq> JNull" "JNull \<notin> set xs" by auto
  from migrate_todo_total [OF nn(1)] obtain m wa where hd: "migrate_todo rt e w = (Inr m, wa)"
    by blast
  from Cons.IH [OF nn(2), of wa] obtain ms w1 where "migrate_todos rt xs wa = (Inr ms, w1)"
    by blast
  with hd show ?case by simp
qed

lemma count_completed_total: "JNull \<notin> set xs \<Longrightarrow> \<exists>n. count_completed xs = Inr n"
proof (induction xs)
  case Nil
  show ?case by simp
next
  case (Cons e xs)
  then obtain n where "count_completed xs = Inr n" by auto
  with Cons.prems show ?case by (auto simp: get_prop_def)
qed

lemma withRetry_first_attempt:
  "0 < m \<Longrightarrow> operation st w = (Inr v, st', w') \<Longrightarrow>
     withRetry operation m d st w = (Inr v, st', w')"
  by (simp add: withRetry_def withRetry_from.simps)

lemma saveToFile_no_fault:
  assumes "faults w = [] \<or> hd (faults w) = None" and "updateMetadata rt w st = Inr st1"
  shows "saveToFile rt st w =
           (Inr (), st1,
            w\<lparr>faults := tl (faults w), events := events w @ [WriteFile (filePath st)],
              files := (files w)(filePath st \<mapsto> Document (TodoList_json (data st1)))\<rparr>)"
proof -
  have p: "filePath st1 = filePath st" using updateMetadata_Inr [OF assms(2)] by simp
  have "write_op (filePath st) (TodoList_json (data st1)) st1 w =
          (Inr (), st1,
           w\<lparr>faults := tl (faults w), events := events w @ [WriteFile (filePath st)],
             files := (files w)(filePath st \<mapsto> Document (TodoList_json (data st1)))\<rparr>)"
    using assms(1) by (cases "faults w") (auto simp: write_op_def fs_writeFile_def fs_call_def)
  then have "withRetry (write_op (filePath st) (TodoList_json (data st1))) 3 500 st1 w =
          (Inr (), st1,
           w\<lparr>faults := tl (faults w), events := events w @ [WriteFile (filePath st)],
             files := (files w)(filePath st \<mapsto> Document (TodoList_json (data st1)))\<rparr>)"
    by (simp add: withRetry_first_attempt)
  with assms(2) p show ?thesis by (simp add: saveToFile_def)
qed

lemma migrate_array_Inr:
  assumes "migrate_array rt xs st w = (Inr l, st', w')"
  shows "length (todos l) = length xs \<and> (\<forall>n<length xs. coerced rt w w' (xs ! n) (todos l ! n))
         \<and> version (metadata l) = ''1.0.0'' \<and> recomputed rt w l \<and> data st' = l
         \<and> filePath st' = filePath st \<and> isInitialized st' = isInitialized st
         \<and> files w' (filePath st) = Some (Document (TodoList_json l))"
proof -
  from assms obtain ts w1 n where
    mt: "migrate_todos rt xs w = (Inr ts, w1)"
    and sv: "saveToFile rt
               (st\<lparr>data := \<lparr>todos = ts,
                     metadata = \<lparr>version = ''1.0.0'', lastModified = getCurrentTimestamp rt w1,
                                 totalCount = length xs, completedCount = n\<rparr>\<rparr>\<rparr>) w1
             = (Inr (), st', w')"
    and l: "l = data st'"
    by (auto simp: migrate_array_def install_and_save_def split: prod.splits sum.splits)
  note m = migrate_todos_Inr [OF mt]
  note f = saveToFile_frame [OF sv]
  note s = saveToFile_Inr [OF sv]
  note u = updateMetadata_Inr [OF s [THEN conjunct1]]
  have co: "\<forall>n<length xs. coerced rt w w' (xs ! n) (ts ! n)"
    using m f by (auto intro: coerced_mono [of rt w w1 _ _ w w'])
  from m f s u co show ?thesis
    by (auto simp: l recomputed_def completed_in_def getCurrentTimestamp_def)
qed

text \<open>
  C6 (amended). In the legacy array migration every element of the array is coerced into
  a full Todo by these rules: an id that is missing or falsy (empty string, zero, false,
  null) is replaced by a freshly generated id, a title that is missing or falsy becomes
  "Untitled", such a description the empty string, \<open>completed\<close> is coerced to a boolean,
  a missing or falsy \<open>createdAt\<close> or \<open>updatedAt\<close> becomes the current timestamp, such a
  priority "medium", a falsy \<open>dueDate\<close> is dropped, \<open>tags\<close> becomes the empty list unless it
  is a list already, and every other value that is present is kept as it is; the metadata
  is synthesised (version 1.0.0, counts computed) and the migrated TodoList is on disk, at
  the store's path, when it is returned.
\<close>

theorem migrateData_array_coerces:
  assumes "migrateData rt (JArr xs) st w = (Inr l, st', w')"
  shows "length (todos l) = length xs
         \<and> (\<forall>n<length xs. coerced rt w w' (xs ! n) (todos l ! n))
         \<and> version (metadata l) = ''1.0.0'' \<and> recomputed rt w l
         \<and> data st' = l
         \<and> files w' (filePath st) = Some (Document (TodoList_json l))"
  using migrate_array_Inr [of rt xs st w l st' w'] assms by (simp add: migrateData_def)

lemma migrate_array_total:
  assumes "JNull \<notin> set xs" and "faults w = [] \<or> hd (faults w) = None"
  shows "\<exists>l st' w'. migrateData rt (JArr xs) st w = (Inr l, st', w')"
proof -
  from migrate_todos_total [OF assms(1)] obtain ts w1 where
    mt: "migrate_todos rt xs w = (Inr ts, w1)" by blast
  note m = migrate_todos_Inr [OF mt]
  from count_completed_total [OF assms(1)] obtain n where cc: "count_completed xs = Inr n" ..
  let ?st = "st\<lparr>data := \<lparr>todos = ts,
                    metadata = \<lparr>version = ''1.0.0'', lastModified = getCurrentTimestamp rt w1,
                                totalCount = length xs, completedCount = n\<rparr>\<rparr>\<rparr>"
  from m have "JNull \<notin> set (todos (data ?st))" by simp
  from updateMetadata_total [OF this] obtain st1 where um: "updateMetadata rt w1 ?st = Inr st1" ..
  from m assms(2) have "faults w1 = [] \<or> hd (faults w1) = None" by simp
  from saveToFile_no_fault [OF this um] mt cc show ?thesis
    by (simp add: migrateData_def migrate_array_def install_and_save_def)
qed

subsection \<open>Evaluating the example runtime\<close>

lemmas calendar_defs =
  iso_string_def civil_from_days_def civil_of_doe_def civil_of_yoe_def civil_of_doy_def
  civil_of_mp_def month_of_def pad2_def pad3_def pad4_def digit_def

lemma node_now: "toISOString node 1700000000000 = ''2023-11-14T22:13:20.000Z''"
  by (simp add: node_def calendar_defs)

lemma node_simps:
  "is_uuid node = has_shape ''xxxxxxxx-xxxx-xxxx-xxxx-xxxxxxxxxxxx''"
  "is_datetime node = (\<lambda>s. has_shape ''9999-99-99T99:99:99.999Z'' s
                            \<or> has_shape ''9999-99-99T99:99:99Z'' s)"
  "is_date node = has_shape ''9999-99-99''"
  "Date_parse node = parse_date"
  by (simp_all add: node_def)

lemma world_with_simps:
  "files (world_with fs script) = fs"
  "faults (world_with fs script) = script"
  "now (world_with fs script) = 1700000000000"
  "drawn (world_with fs script) = 0"
  "events (world_with fs script) = []"
  "randomUUID (world_with fs script) = uuid_stream"
  by (simp_all add: world_with_def)

lemmas zod_defs =
  TodoSchema_parse_def z_format_def z_string_def z_title_def z_description_def z_completed_def
  z_dueDate_def z_priority_def z_tags_def priority_of_name_def is_hex_def is_digit_def

subsection \<open>Loading a document that the store wrote\<close>

lemma TodoList_json_fields:
  "field (TodoList_json l) ''todos'' = Some (JArr (todos l))"
  "field (TodoList_json l) ''metadata'' = Some (metadata_json (metadata l))"
  by (simp_all add: TodoList_json_def)

lemma reload_rejected:
  assumes "z_todo_list rt (todos l) = None"
  shows "validateAndMigrate rt (TodoList_json l) st w =
           (Inl (ValidationError UnsupportedFormat), st, w)"
proof -
  have "TodoListSchema_parse rt (TodoList_json l) = None"
    using assms by (simp add: TodoListSchema_parse_def TodoList_json_def z_todos_def)
  moreover have "migrateData rt (TodoList_json l) st w =
                   (Inl (ValidationError UnsupportedFormat), st, w)"
    by (simp add: migrateData_def TodoList_json_def get_prop_def metadata_json_def)
  ultimately show ?thesis by (simp add: validateAndMigrate_def)
qed

lemma loadFromFile_document:
  assumes "faults w = [] \<or> hd (faults w) = None" and "files w (filePath st) = Some (Document raw)"
  shows "loadFromFile rt st w =
           (case validateAndMigrate rt raw st
                   (w\<lparr>faults := tl (faults w), events := events w @ [ReadFile (filePath st)]\<rparr>) of
              (Inl e, st2, w2) \<Rightarrow> (Inl e, st2, w2)
            | (Inr l, st2, w2) \<Rightarrow> (Inr (), st2\<lparr>data := l\<rparr>, w2))"
  using assms
  by (cases "faults w") (auto simp: loadFromFile_def fs_readFile_def fs_call_def JSON_parse_def)

text \<open>
  C1. For every legacy array-format JSON value, migrating it once and persisting the
  result, then loading the persisted v1.0.0 file again through the same validate-or-migrate
  pipeline, produces an identical TodoList both times. The code does not keep this: the
  legacy file of the specification's fourth scenario migrates and is persisted, and the
  persisted file is then rejected as an unsupported format, because the migration keeps
  the legacy id, which the schema of the current format refuses.
\<close>

theorem legacy_file_migrates_then_fails_to_load:
  "(case validateAndMigrate node legacy_array
           (new_TodoStorage node (world_with Map.empty []) store_path) (world_with Map.empty []) of
      (r, st1, w1) \<Rightarrow>
        r = Inr (data st1)
        \<and> todos (data st1) =
            [JObj [(''id'', JStr ''a''), (''title'', JStr ''Old''), (''description'', JStr []),
                   (''completed'', JBool True),
                   (''createdAt'', JStr ''2023-11-14T22:13:20.000Z''),
                   (''updatedAt'', JStr ''2023-11-14T22:13:20.000Z''),
                   (''priority'', JStr ''medium''), (''tags'', JArr [])]]
        \<and> files w1 store_path = Some (Document (TodoList_json (data st1)))
        \<and> fst (loadFromFile node st1 w1) = Inl (ValidationError UnsupportedFormat))"
proof -
  let ?w = "world_with Map.empty []"
  let ?st = "new_TodoStorage node ?w store_path"
  let ?e = "JObj [(''id'', JStr ''a''), (''title'', JStr ''Old''), (''completed'', JBool True)]"
  let ?m = "JObj [(''id'', JStr ''a''), (''title'', JStr ''Old''), (''description'', JStr []),
                   (''completed'', JBool True),
                   (''createdAt'', JStr ''2023-11-14T22:13:20.000Z''),
                   (''updatedAt'', JStr ''2023-11-14T22:13:20.000Z''),
                   (''priority'', JStr ''medium''), (''tags'', JArr [])]"
  obtain r st1 w1 where run: "validateAndMigrate node legacy_array ?st ?w = (r, st1, w1)"
    by (cases "validateAndMigrate node legacy_array ?st ?w")
  have mt: "migrate_todo node ?e ?w = (Inr ?m, ?w)"
    by (simp add: migrate_todo_def get_prop_def truthy_value_def or_else_def entry_def
          getCurrentTimestamp_def world_with_simps node_now)
  have arr: "migrate_array node [?e] ?st ?w = (r, st1, w1)"
    using run by (simp add: validateAndMigrate_def TodoListSchema_parse_def legacy_array_def
                    migrateData_def)
  then obtain n where sv: "install_and_save node ArrayMigrationFailed
        \<lparr>todos = [?m], metadata = \<lparr>version = ''1.0.0'', lastModified = getCurrentTimestamp node ?w,
                                   totalCount = 1, completedCount = n\<rparr>\<rparr> ?st ?w = (r, st1, w1)"
    by (simp add: migrate_array_def mt get_prop_def)
  let ?st' = "?st\<lparr>data := \<lparr>todos = [?m],
                    metadata = \<lparr>version = ''1.0.0'', lastModified = getCurrentTimestamp node ?w,
                                totalCount = 1, completedCount = n\<rparr>\<rparr>\<rparr>"
  have "JNull \<notin> set (todos (data ?st'))" by simp
  from updateMetadata_total [OF this] obtain st2 where um: "updateMetadata node ?w ?st' = Inr st2" ..
  have nf: "faults ?w = [] \<or> hd (faults ?w) = None" by (simp add: world_with_simps)
  note sf = saveToFile_no_fault [OF nf um]
  from sv sf have r: "r = Inr (data st2)" and st1: "st1 = st2"
    and w1: "w1 = ?w\<lparr>faults := tl (faults ?w), events := events ?w @ [WriteFile (filePath ?st')],
                     files := (files ?w)(filePath ?st' \<mapsto> Document (TodoList_json (data st2)))\<rparr>"
    by (auto simp: install_and_save_def)
  note u = updateMetadata_Inr [OF um]
  have path: "filePath st1 = store_path" using u st1 by (simp add: new_TodoStorage_def)
  have td: "todos (data st1) = [?m]" using u st1 by simp
  have onfile: "files w1 store_path = Some (Document (TodoList_json (data st1)))"
    using w1 st1 by (simp add: new_TodoStorage_def)
  have "TodoSchema_parse node ?m = None"
    by (simp add: zod_defs node_simps)
  then have "z_todo_list node (todos (data st1)) = None" by (simp add: td)
  then have rej: "validateAndMigrate node (TodoList_json (data st1)) st1
                    (w1\<lparr>faults := tl (faults w1), events := events w1 @ [ReadFile (filePath st1)]\<rparr>)
                  = (Inl (ValidationError UnsupportedFormat), st1,
                     w1\<lparr>faults := tl (faults w1), events := events w1 @ [ReadFile (filePath st1)]\<rparr>)"
    by (rule reload_rejected)
  have "faults w1 = [] \<or> hd (faults w1) = None" using w1 by (simp add: world_with_simps)
  from loadFromFile_document [OF this, of st1 "TodoList_json (data st1)" node] onfile path rej
  have "fst (loadFromFile node st1 w1) = Inl (ValidationError UnsupportedFormat)" by simp
  with r st1 td onfile show ?thesis by (simp add: run)
qed

text \<open>The witness of C6: the legacy file of the fourth scenario.\<close>

theorem migrateData_array_coerces_witness:
  "\<exists>l st' w'.
     migrateData node legacy_array (new_TodoStorage node (world_with Map.empty []) store_path)
       (world_with Map.empty []) = (Inr l, st', w')
     \<and> length (todos l) = 1
     \<and> field (todos l ! 0) ''description'' = Some (JStr [])
     \<and> field (todos l ! 0) ''completed'' = Some (JBool True)
     \<and> field (todos l ! 0) ''createdAt'' = Some (JStr ''2023-11-14T22:13:20.000Z'')
     \<and> field (todos l ! 0) ''priority'' = Some (JStr ''medium'')
     \<and> field (todos l ! 0) ''tags'' = Some (JArr [])
     \<and> totalCount (metadata l) = 1
     \<and> files w' store_path = Some (Document (TodoList_json l))"
proof -
  let ?w = "world_with Map.empty []"
  let ?st = "new_TodoStorage node ?w store_path"
  let ?xs = "[JObj [(''id'', JStr ''a''), (''title'', JStr ''Old''), (''completed'', JBool True)]]"
  have "JNull \<notin> set ?xs" and "faults ?w = [] \<or> hd (faults ?w) = None"
    by (simp_all add: world_with_simps)
  from migrate_array_total [OF this, of node ?st]
  obtain l st' w' where run: "migrateData node (JArr ?xs) ?st ?w = (Inr l, st', w')" by blast
  from migrateData_array_coerces [OF run]
  have "length (todos l) = 1" and "coerced node ?w w' (?xs ! 0) (todos l ! 0)"
    and "recomputed node ?w l"
    and "files w' (filePath ?st) = Some (Document (TodoList_json l))"
    by simp_all
  then show ?thesis
    using run
    by (auto simp: coerced_def kept_or_def recomputed_def legacy_array_def new_TodoStorage_def
          world_with_simps node_now)
qed

text \<open>
  Against C6 as it was stated: a title that is present and empty is none of the listed
  cases, and the migration replaces it all the same.
\<close>

theorem migrateData_falsy_title_counterexample:
  "\<exists>l st' w'.
     migrateData node (JArr [JObj [(''id'', JStr ''a''), (''title'', JStr [])]])
       (new_TodoStorage node (world_with Map.empty []) store_path) (world_with Map.empty [])
       = (Inr l, st', w')
     \<and> field (JObj [(''id'', JStr ''a''), (''title'', JStr [])]) ''title'' = Some (JStr [])
     \<and> field (todos l ! 0) ''title'' = Some (JStr ''Untitled'')"
proof -
  let ?w = "world_with Map.empty []"
  let ?st = "new_TodoStorage node ?w store_path"
  let ?xs = "[JObj [(''id'', JStr ''a''), (''title'', JStr [])]]"
  have "JNull \<notin> set ?xs" and "faults ?w = [] \<or> hd (faults ?w) = None"
    by (simp_all add: world_with_simps)
  from migrate_array_total [OF this, of node ?st]
  obtain l st' w' where run: "migrateData node (JArr ?xs) ?st ?w = (Inr l, st', w')" by blast
  then have "migrate_array node ?xs ?st ?w = (Inr l, st', w')" by (simp add: migrateData_def)
  from migrate_array_Inr [OF this] have "coerced node ?w w' (?xs ! 0) (todos l ! 0)" by simp
  then have "field (todos l ! 0) ''title'' = Some (JStr ''Untitled'')"
    by (simp add: coerced_def kept_or_def)
  with run show ?thesis by auto
qed

subsection \<open>The initialised flag\<close>

lemma uninitialized_operations:
  assumes "\<not> isInitialized st"
  shows "getAllTodos st = Inl (StorageError NotInitialized)"
    and "getTodoById i st = Inl (StorageError NotInitialized)"
    and "addTodo rt todo st w = (Inl (StorageError NotInitialized), st, w)"
    and "updateTodo rt i updates st w = (Inl (StorageError NotInitialized), st, w)"
    and "deleteTodo rt i st w = (Inl (StorageError NotInitialized), st, w)"
    and "clearAllTodos rt st w = (Inl (StorageError NotInitialized), st, w)"
    and "getStats rt st w = Inl (StorageError NotInitialized)"
    and "getTodoList rt st w = (Inl (StorageError NotInitialized), st)"
    and "createBackup rt st w = (Inl (StorageError NotInitialized), w)"
  using assms
  by (simp_all add: getAllTodos_def getTodoById_def addTodo_def updateTodo_def deleteTodo_def
        clearAllTodos_def getStats_def getTodoList_def createBackup_def ensureInitialized_def)

lemma install_and_save_frame:
  "install_and_save rt reason l st w = (r, st', w') \<Longrightarrow>
     filePath st' = filePath st \<and> isInitialized st' = isInitialized st"
  by (auto simp: install_and_save_def split: prod.splits sum.splits dest!: saveToFile_frame)

lemma migrateData_frame:
  "migrateData rt raw st w = (r, st', w') \<Longrightarrow>
     filePath st' = filePath st \<and> isInitialized st' = isInitialized st"
  by (auto simp: migrateData_def migrate_array_def migrate_no_metadata_def
           split: json.splits prod.splits sum.splits option.splits if_splits
           dest!: install_and_save_frame)

lemma validateAndMigrate_frame:
  "validateAndMigrate rt raw st w = (r, st', w') \<Longrightarrow>
     filePath st' = filePath st \<and> isInitialized st' = isInitialized st"
  by (auto simp: validateAndMigrate_def split: option.splits dest!: migrateData_frame)

lemma restoreFromBackup_frame:
  "restoreFromBackup rt p st w = (r, st', w') \<Longrightarrow>
     filePath st' = filePath st \<and> isInitialized st' = isInitialized st
     \<and> r \<noteq> Inl (StorageError NotInitialized)"
  by (auto simp: restoreFromBackup_def split: prod.splits sum.splits
           dest!: validateAndMigrate_frame saveToFile_frame)

lemma restoreFromBackup_Inr:
  assumes "restoreFromBackup rt p st w = (Inr u, st', w')"
  shows "\<exists>raw l w1 st2 w2.
           fs_readFile p w = (Inr (Document raw), w1)
           \<and> validateAndMigrate rt raw st w1 = (Inr l, st2, w2)
           \<and> todos (data st') = todos l \<and> version (metadata (data st')) = version (metadata l)
           \<and> recomputed rt w2 (data st')
           \<and> files w' (filePath st) = Some (Document (TodoList_json (data st')))"
proof -
  from assms obtain raw l w1 st2 w2 where
    rd: "fs_readFile p w = (Inr (Document raw), w1)"
    and vm: "validateAndMigrate rt raw st w1 = (Inr l, st2, w2)"
    and sv: "saveToFile rt (st2\<lparr>data := l\<rparr>) w2 = (Inr (), st', w')"
    by (auto simp: restoreFromBackup_def JSON_parse_def
             split: prod.splits sum.splits filedata.splits)
  note f = validateAndMigrate_frame [OF vm]
  note s = saveToFile_Inr [OF sv]
  note m = updateMetadata_Inr [OF s [THEN conjunct1]]
  from rd vm f s m show ?thesis
    by (auto simp: recomputed_def completed_in_def getCurrentTimestamp_def)
qed

lemma z_todo_list_not_null: "JNull \<notin> set (map todo_json ts)"
  by (induction ts) simp_all

lemma TodoListSchema_parse_not_null:
  "TodoListSchema_parse rt raw = Some l \<Longrightarrow> JNull \<notin> set (todos l)"
  by (auto simp: TodoListSchema_parse_def z_todo_list_not_null
           split: json.splits Option.bind_splits)

lemma restoreFromBackup_validated:
  assumes "faults w = []" and "files w p = Some (Document raw)"
    and "TodoListSchema_parse rt raw = Some l"
  shows "\<exists>st' w'. restoreFromBackup rt p st w = (Inr (), st', w') \<and> todos (data st') = todos l"
proof -
  let ?w1 = "w\<lparr>faults := tl (faults w), events := events w @ [ReadFile p]\<rparr>"
  have rd: "fs_readFile p w = (Inr (Document raw), ?w1)"
    using assms(1,2) by (simp add: fs_readFile_def fs_call_def)
  have vm: "validateAndMigrate rt raw st ?w1 = (Inr l, st, ?w1)"
    using assms(3) by (simp add: validateAndMigrate_def)
  have "JNull \<notin> set (todos (data (st\<lparr>data := l\<rparr>)))"
    using TodoListSchema_parse_not_null [OF assms(3)] by simp
  from updateMetadata_total [OF this] obtain st1 where
    um: "updateMetadata rt ?w1 (st\<lparr>data := l\<rparr>) = Inr st1" ..
  have "faults ?w1 = [] \<or> hd (faults ?w1) = None" using assms(1) by simp
  note sv = saveToFile_no_fault [OF this um]
  from updateMetadata_Inr [OF um] have "todos (data st1) = todos l" by simp
  with rd vm sv show ?thesis by (simp add: restoreFromBackup_def JSON_parse_def)
qed

text \<open>
  C10. \<open>restoreFromBackup\<close> never changes the store's initialised flag and never fails as
  "not initialized". When it succeeds, the file at the given path parsed and validated or
  migrated, the in-memory todos are those of the validated list, and the aggregate, with
  recomputed metadata, is the content of the primary store file. A file that satisfies the
  schema is restored whenever no file system call fails, also on an uninitialised store;
  the store is uninitialised afterwards as well, and every other operation except
  \<open>initialize\<close> still fails with the "not initialized" StorageError.
\<close>

theorem restoreFromBackup_keeps_flag:
  assumes "restoreFromBackup rt p st w = (r, st', w')"
  shows "isInitialized st' = isInitialized st
    \<and> r \<noteq> Inl (StorageError NotInitialized)
    \<and> (r = Inr () \<longrightarrow>
         (\<exists>raw l w1 st2 w2.
             fs_readFile p w = (Inr (Document raw), w1)
             \<and> validateAndMigrate rt raw st w1 = (Inr l, st2, w2)
             \<and> todos (data st') = todos l \<and> recomputed rt w2 (data st'))
         \<and> files w' (filePath st) = Some (Document (TodoList_json (data st'))))
    \<and> (\<forall>raw l. faults w = [] \<and> files w p = Some (Document raw)
           \<and> TodoListSchema_parse rt raw = Some l \<longrightarrow> r = Inr () \<and> todos (data st') = todos l)
    \<and> (\<not> isInitialized st \<longrightarrow>
         getAllTodos st' = Inl (StorageError NotInitialized)
         \<and> (\<forall>i. getTodoById i st' = Inl (StorageError NotInitialized))
         \<and> (\<forall>todo v. fst (addTodo rt todo st' v) = Inl (StorageError NotInitialized))
         \<and> (\<forall>i updates v. fst (updateTodo rt i updates st' v) = Inl (StorageError NotInitialized))
         \<and> (\<forall>i v. fst (deleteTodo rt i st' v) = Inl (StorageError NotInitialized))
         \<and> (\<forall>v. fst (clearAllTodos rt st' v) = Inl (StorageError NotInitialized))
         \<and> (\<forall>v. getStats rt st' v = Inl (StorageError NotInitialized))
         \<and> (\<forall>v. fst (getTodoList rt st' v) = Inl (StorageError NotInitialized))
         \<and> (\<forall>v. fst (createBackup rt st' v) = Inl (StorageError NotInitialized)))"
proof -
  note f = restoreFromBackup_frame [OF assms]
  have ok: "r = Inr () \<longrightarrow>
         (\<exists>raw l w1 st2 w2.
             fs_readFile p w = (Inr (Document raw), w1)
             \<and> validateAndMigrate rt raw st w1 = (Inr l, st2, w2)
             \<and> todos (data st') = todos l \<and> recomputed rt w2 (data st'))
         \<and> files w' (filePath st) = Some (Document (TodoList_json (data st')))"
  proof
    assume "r = Inr ()"
    with assms have "restoreFromBackup rt p st w = (Inr (), st', w')" by simp
    from restoreFromBackup_Inr [OF this] show
      "(\<exists>raw l w1 st2 w2.
             fs_readFile p w = (Inr (Document raw), w1)
             \<and> validateAndMigrate rt raw st w1 = (Inr l, st2, w2)
             \<and> todos (data st') = todos l \<and> recomputed rt w2 (data st'))
         \<and> files w' (filePath st) = Some (Document (TodoList_json (data st')))"
      by blast
  qed
  have valid: "\<forall>raw l. faults w = [] \<and> files w p = Some (Document raw)
           \<and> TodoListSchema_parse rt raw = Some l \<longrightarrow> r = Inr () \<and> todos (data st') = todos l"
  proof (intro allI impI)
    fix raw l
    assume "faults w = [] \<and> files w p = Some (Document raw)
              \<and> TodoListSchema_parse rt raw = Some l"
    then have "\<exists>st' w'. restoreFromBackup rt p st w = (Inr (), st', w') \<and> todos (data st') = todos l"
      using restoreFromBackup_validated [of w p raw rt l st] by blast
    with assms show "r = Inr () \<and> todos (data st') = todos l" by auto
  qed
  have closed: "\<not> isInitialized st \<longrightarrow>
         getAllTodos st' = Inl (StorageError NotInitialized)
         \<and> (\<forall>i. getTodoById i st' = Inl (StorageError NotInitialized))
         \<and> (\<forall>todo v. fst (addTodo rt todo st' v) = Inl (StorageError NotInitialized))
         \<and> (\<forall>i updates v. fst (updateTodo rt i updates st' v) = Inl (StorageError NotInitialized))
         \<and> (\<forall>i v. fst (deleteTodo rt i st' v) = Inl (StorageError NotInitialized))
         \<and> (\<forall>v. fst (clearAllTodos rt st' v) = Inl (StorageError NotInitialized))
         \<and> (\<forall>v. getStats rt st' v = Inl (StorageError NotInitialized))
         \<and> (\<forall>v. fst (getTodoList rt st' v) = Inl (StorageError NotInitialized))
         \<and> (\<forall>v. fst (createBackup rt st' v) = Inl (StorageError NotInitialized))"
  proof
    assume "\<not> isInitialized st"
    with f have "\<not> isInitialized st'" by simp
    from uninitialized_operations [OF this] show
      "getAllTodos st' = Inl (StorageError NotInitialized)
         \<and> (\<forall>i. getTodoById i st' = Inl (StorageError NotInitialized))
         \<and> (\<forall>todo v. fst (addTodo rt todo st' v) = Inl (StorageError NotInitialized))
         \<and> (\<forall>i updates v. fst (updateTodo rt i updates st' v) = Inl (StorageError NotInitialized))
         \<and> (\<forall>i v. fst (deleteTodo rt i st' v) = Inl (StorageError NotInitialized))
         \<and> (\<forall>v. fst (clearAllTodos rt st' v) = Inl (StorageError NotInitialized))
         \<and> (\<forall>v. getStats rt st' v = Inl (StorageError NotInitialized))
         \<and> (\<forall>v. fst (getTodoList rt st' v) = Inl (StorageError NotInitialized))
         \<and> (\<forall>v. fst (createBackup rt st' v) = Inl (StorageError NotInitialized))"
      by simp
  qed
  from f ok valid closed show ?thesis by blast
qed

lemma milk_not_completed: "completed milk = False"
  by (simp add: milk_def)

lemma parse_store_of_milk:
  "TodoListSchema_parse node (TodoList_json (data (store_of p [milk]))) = Some (data (store_of p [milk]))"
  by (simp add: TodoListSchema_parse_def TodoList_json_def store_of_def z_todos_def parse_milk
        z_metadata_def metadata_json_def z_version_def z_string_def z_format_def z_count_def
        node_simps is_digit_def milk_not_completed)

text \<open>
  The witness of C10: a store that was never initialised restores a backup that holds
  \<open>milk\<close>, and is as uninitialised afterwards as before.
\<close>

theorem restoreFromBackup_keeps_flag_witness:
  "\<exists>st' w'.
     restoreFromBackup node ''/backup.json'' (new_TodoStorage node (world_with Map.empty []) store_path)
       (world_with (Map.empty(''/backup.json'' \<mapsto>
            Document (TodoList_json (data (store_of store_path [milk]))))) [])
       = (Inr (), st', w')
     \<and> \<not> isInitialized (new_TodoStorage node (world_with Map.empty []) store_path)
     \<and> \<not> isInitialized st'
     \<and> todos (data st') = [todo_json milk]
     \<and> files w' store_path = Some (Document (TodoList_json (data st')))
     \<and> getAllTodos st' = Inl (StorageError NotInitialized)
     \<and> fst (createBackup node st' w') = Inl (StorageError NotInitialized)"
proof -
  let ?st = "new_TodoStorage node (world_with Map.empty []) store_path"
  let ?doc = "TodoList_json (data (store_of store_path [milk]))"
  let ?w = "world_with (Map.empty(''/backup.json'' \<mapsto> Document ?doc)) []"
  obtain r st' w' where run: "restoreFromBackup node ''/backup.json'' ?st ?w = (r, st', w')"
    by (cases "restoreFromBackup node ''/backup.json'' ?st ?w")
  have pre: "faults ?w = [] \<and> files ?w ''/backup.json'' = Some (Document ?doc)
             \<and> TodoListSchema_parse node ?doc = Some (data (store_of store_path [milk]))"
    by (simp add: world_with_simps parse_store_of_milk)
  have un: "\<not> isInitialized ?st" and path: "filePath ?st = store_path"
    by (simp_all add: new_TodoStorage_def)
  note t = restoreFromBackup_keeps_flag [OF run]
  from t [THEN conjunct1] un have un': "\<not> isInitialized st'" by simp
  from t [THEN conjunct2, THEN conjunct2, THEN conjunct2, THEN conjunct1] pre
  have r: "r = Inr ()" and td: "todos (data st') = todos (data (store_of store_path [milk]))"
    by blast+
  from t [THEN conjunct2, THEN conjunct2, THEN conjunct1] r path
  have onfile: "files w' store_path = Some (Document (TodoList_json (data st')))" by simp
  from t [THEN conjunct2, THEN conjunct2, THEN conjunct2, THEN conjunct2] un
  have "getAllTodos st' = Inl (StorageError NotInitialized)"
    and "fst (createBackup node st' w') = Inl (StorageError NotInitialized)"
    by blast+
  with run un un' r td onfile show ?thesis by (simp add: store_of_def)
qed

text \<open>
  C2. Every public operation other than \<open>initialize\<close> fails with the "not initialized"
  StorageError on an uninitialised store. \<open>restoreFromBackup\<close> does not: on a store that
  was never initialised, where \<open>getAllTodos\<close> and \<open>createBackup\<close> fail as the claim says, it
  restores a valid backup and returns normally.
\<close>

theorem restoreFromBackup_runs_uninitialized:
  "\<not> isInitialized (new_TodoStorage node (world_with Map.empty []) store_path)
   \<and> getAllTodos (new_TodoStorage node (world_with Map.empty []) store_path)
       = Inl (StorageError NotInitialized)
   \<and> fst (createBackup node (new_TodoStorage node (world_with Map.empty []) store_path)
            (world_with (Map.empty(''/backup.json'' \<mapsto>
               Document (TodoList_json (data (store_of store_path [milk]))))) []))
       = Inl (StorageError NotInitialized)
   \<and> fst (restoreFromBackup node ''/backup.json''
            (new_TodoStorage node (world_with Map.empty []) store_path)
            (world_with (Map.empty(''/backup.json'' \<mapsto>
               Document (TodoList_json (data (store_of store_path [milk]))))) []))
       = Inr ()"
proof -
  let ?st = "new_TodoStorage node (world_with Map.empty []) store_path"
  let ?doc = "TodoList_json (data (store_of store_path [milk]))"
  let ?w = "world_with (Map.empty(''/backup.json'' \<mapsto> Document ?doc)) []"
  have un: "\<not> isInitialized ?st" by (simp add: new_TodoStorage_def)
  have "faults ?w = []" and "files ?w ''/backup.json'' = Some (Document ?doc)"
    by (simp_all add: world_with_simps)
  from restoreFromBackup_validated [OF this parse_store_of_milk, of ?st]
  have "fst (restoreFromBackup node ''/backup.json'' ?st ?w) = Inr ()" by auto
  with un uninitialized_operations(1,9) [OF un] show ?thesis by simp
qed

subsection \<open>Initialising\<close>

lemma fs_mkdir_ok:
  "faults w = None # fs \<Longrightarrow> fs_mkdir w = (Inr (), w\<lparr>faults := fs, events := events w @ [Mkdir]\<rparr>)"
  by (simp add: fs_mkdir_def fs_call_def)

lemma loadFromFile_fault:
  "faults w = Some c # fs \<Longrightarrow>
     loadFromFile rt st w =
       (Inl (SysError c), st, w\<lparr>faults := fs, events := events w @ [ReadFile (filePath st)]\<rparr>)"
  by (simp add: loadFromFile_def fs_readFile_def fs_call_def)

lemma loadFromFile_valid:
  assumes "faults w = None # fs" and "files w (filePath st) = Some (Document raw)"
    and "TodoListSchema_parse rt raw = Some l"
  shows "loadFromFile rt st w =
           (Inr (), st\<lparr>data := l\<rparr>,
            w\<lparr>faults := fs, events := events w @ [ReadFile (filePath st)]\<rparr>)"
  using assms by (simp add: loadFromFile_def fs_readFile_def fs_call_def JSON_parse_def
                    validateAndMigrate_def)

lemma loadFromFile_malformed:
  assumes "faults w = []" and "files w (filePath st) = Some Malformed"
  shows "loadFromFile rt st w =
           (Inl (FileError ReadOp (filePath st) (InvalidJSON SyntaxError)), st,
            w\<lparr>events := events w @ [ReadFile (filePath st)]\<rparr>)"
  using assms by (simp add: loadFromFile_def fs_readFile_def fs_call_def JSON_parse_def)

lemmas retry_unfold = withRetry_def withRetry_from.simps attempts_failed_def sleep_def
  finish_initialize_def

lemma initialize_all_reads_fail:
  assumes "faults w = None # Some c1 # Some c2 # Some c3 # Some c4 # fs" and "c1 \<noteq> ''ENOENT''"
  shows "initialize rt st w =
           (Inl (StorageError (InitializeFailed (StorageError (AttemptsExhausted 3 (SysError c4))))),
            st,
            w\<lparr>faults := fs, now := now w + 3000,
              events := events w @ [Mkdir, ReadFile (filePath st), ReadFile (filePath st),
                                    Sleep 1000, ReadFile (filePath st), Sleep 2000,
                                    ReadFile (filePath st)]\<rparr>)"
  using assms
  by (simp add: initialize_def fs_mkdir_ok loadFromFile_fault retry_unfold)

lemma initialize_first_retry_loads:
  assumes "faults w = None # Some c1 # None # fs" and "c1 \<noteq> ''ENOENT''"
    and "files w (filePath st) = Some (Document raw)" and "TodoListSchema_parse rt raw = Some l"
  shows "initialize rt st w =
           (Inr (), st\<lparr>data := l, isInitialized := True\<rparr>,
            w\<lparr>faults := fs,
              events := events w @ [Mkdir, ReadFile (filePath st), ReadFile (filePath st)]\<rparr>)"
  using assms
  by (simp add: initialize_def fs_mkdir_ok loadFromFile_fault loadFromFile_valid retry_unfold)

lemma initialize_second_retry_loads:
  assumes "faults w = None # Some c1 # Some c2 # None # fs" and "c1 \<noteq> ''ENOENT''"
    and "files w (filePath st) = Some (Document raw)" and "TodoListSchema_parse rt raw = Some l"
  shows "initialize rt st w =
           (Inr (), st\<lparr>data := l, isInitialized := True\<rparr>,
            w\<lparr>faults := fs, now := now w + 1000,
              events := events w @ [Mkdir, ReadFile (filePath st), ReadFile (filePath st),
                                    Sleep 1000, ReadFile (filePath st)]\<rparr>)"
  using assms
  by (simp add: initialize_def fs_mkdir_ok loadFromFile_fault loadFromFile_valid retry_unfold)

lemma initialize_third_retry_loads:
  assumes "faults w = None # Some c1 # Some c2 # Some c3 # None # fs" and "c1 \<noteq> ''ENOENT''"
    and "files w (filePath st) = Some (Document raw)" and "TodoListSchema_parse rt raw = Some l"
  shows "initialize rt st w =
           (Inr (), st\<lparr>data := l, isInitialized := True\<rparr>,
            w\<lparr>faults := fs, now := now w + 3000,
              events := events w @ [Mkdir, ReadFile (filePath st), ReadFile (filePath st),
                                    Sleep 1000, ReadFile (filePath st), Sleep 2000,
                                    ReadFile (filePath st)]\<rparr>)"
  using assms
  by (simp add: initialize_def fs_mkdir_ok loadFromFile_fault loadFromFile_valid retry_unfold)

lemma initialize_malformed:
  assumes "faults w = []" and "files w (filePath st) = Some Malformed"
  shows "initialize rt st w =
           (Inl (StorageError (InitializeFailed (StorageError (AttemptsExhausted 3
                  (FileError ReadOp (filePath st) (InvalidJSON SyntaxError)))))),
            st,
            w\<lparr>now := now w + 3000,
              events := events w @ [Mkdir, ReadFile (filePath st), ReadFile (filePath st),
                                    Sleep 1000, ReadFile (filePath st), Sleep 2000,
                                    ReadFile (filePath st)]\<rparr>)"
  using assms
  by (simp add: initialize_def fs_mkdir_def fs_call_def loadFromFile_malformed retry_unfold)

text \<open>
  C3 (amended). During \<open>initialize\<close>, when the first read of the store file fails for a
  reason other than not-found, the load is retried up to 3 times, with a wait that doubles
  from 1 second (1 s between the first and the second retry, 2 s between the second and
  the third, none before the first); a retry that loads a file satisfying the schema
  initialises the store, and when all three retries fail with I/O errors a StorageError
  that wraps the last error is surfaced and the store stays uninitialised.
\<close>

theorem initialize_retries_with_doubling_backoff:
  assumes "c1 \<noteq> ''ENOENT''"
  shows "(faults w = None # Some c1 # Some c2 # Some c3 # Some c4 # fs \<longrightarrow>
            initialize rt st w =
              (Inl (StorageError (InitializeFailed
                     (StorageError (AttemptsExhausted 3 (SysError c4))))),
               st,
               w\<lparr>faults := fs, now := now w + 3000,
                 events := events w @ [Mkdir, ReadFile (filePath st), ReadFile (filePath st),
                                       Sleep 1000, ReadFile (filePath st), Sleep 2000,
                                       ReadFile (filePath st)]\<rparr>))
    \<and> (files w (filePath st) = Some (Document raw) \<and> TodoListSchema_parse rt raw = Some l \<longrightarrow>
         (faults w = None # Some c1 # None # fs \<longrightarrow>
            initialize rt st w =
              (Inr (), st\<lparr>data := l, isInitialized := True\<rparr>,
               w\<lparr>faults := fs,
                 events := events w @ [Mkdir, ReadFile (filePath st), ReadFile (filePath st)]\<rparr>))
         \<and> (faults w = None # Some c1 # Some c2 # None # fs \<longrightarrow>
            initialize rt st w =
              (Inr (), st\<lparr>data := l, isInitialized := True\<rparr>,
               w\<lparr>faults := fs, now := now w + 1000,
                 events := events w @ [Mkdir, ReadFile (filePath st), ReadFile (filePath st),
                                       Sleep 1000, ReadFile (filePath st)]\<rparr>))
         \<and> (faults w = None # Some c1 # Some c2 # Some c3 # None # fs \<longrightarrow>
            initialize rt st w =
              (Inr (), st\<lparr>data := l, isInitialized := True\<rparr>,
               w\<lparr>faults := fs, now := now w + 3000,
                 events := events w @ [Mkdir, ReadFile (filePath st), ReadFile (filePath st),
                                       Sleep 1000, ReadFile (filePath st), Sleep 2000,
                                       ReadFile (filePath st)]\<rparr>)))"
  using assms initialize_all_reads_fail [of w c1 c2 c3 c4 fs rt st]
    initialize_first_retry_loads [of w c1 fs st raw rt l]
    initialize_second_retry_loads [of w c1 c2 fs st raw rt l]
    initialize_third_retry_loads [of w c1 c2 c3 fs st raw rt l]
  by blast

text \<open>
  The witness: four reads that fail with \<open>EACCES\<close>, and a valid file that is read at
  the second retry.
\<close>

theorem initialize_retries_with_doubling_backoff_witness:
  "''EACCES'' \<noteq> ''ENOENT''
   \<and> initialize node (new_TodoStorage node (world_with Map.empty []) store_path)
       (world_with Map.empty
          [None, Some ''EACCES'', Some ''EACCES'', Some ''EACCES'', Some ''EACCES''])
     = (Inl (StorageError (InitializeFailed
               (StorageError (AttemptsExhausted 3 (SysError ''EACCES''))))),
        new_TodoStorage node (world_with Map.empty []) store_path,
        (world_with Map.empty
           [None, Some ''EACCES'', Some ''EACCES'', Some ''EACCES'', Some ''EACCES''])
         \<lparr>faults := [], now := 1700000003000,
           events := [Mkdir, ReadFile store_path, ReadFile store_path, Sleep 1000,
                      ReadFile store_path, Sleep 2000, ReadFile store_path]\<rparr>)
   \<and> initialize node (new_TodoStorage node (world_with Map.empty []) store_path)
       (world_with (Map.empty(store_path \<mapsto>
            Document (TodoList_json (data (store_of store_path [milk])))))
          [None, Some ''EACCES'', Some ''EIO'', None])
     = (Inr (),
        (new_TodoStorage node (world_with Map.empty []) store_path)
          \<lparr>data := data (store_of store_path [milk]), isInitialized := True\<rparr>,
        (world_with (Map.empty(store_path \<mapsto>
             Document (TodoList_json (data (store_of store_path [milk])))))
           [None, Some ''EACCES'', Some ''EIO'', None])
         \<lparr>faults := [], now := 1700000001000,
           events := [Mkdir, ReadFile store_path, ReadFile store_path, Sleep 1000,
                      ReadFile store_path]\<rparr>)"
proof -
  let ?st = "new_TodoStorage node (world_with Map.empty []) store_path"
  let ?doc = "TodoList_json (data (store_of store_path [milk]))"
  have ne: "''EACCES'' \<noteq> ''ENOENT''" by simp
  have path: "filePath ?st = store_path" by (simp add: new_TodoStorage_def)
  from initialize_retries_with_doubling_backoff
         [where w = "world_with Map.empty
                       [None, Some ''EACCES'', Some ''EACCES'', Some ''EACCES'', Some ''EACCES'']"
            and ?c2.0 = "''EACCES''" and ?c3.0 = "''EACCES''" and ?c4.0 = "''EACCES''"
            and fs = "[]" and rt = node and st = ?st, OF ne, THEN conjunct1]
  have a: "initialize node ?st
       (world_with Map.empty
          [None, Some ''EACCES'', Some ''EACCES'', Some ''EACCES'', Some ''EACCES''])
     = (Inl (StorageError (InitializeFailed
               (StorageError (AttemptsExhausted 3 (SysError ''EACCES''))))),
        ?st,
        (world_with Map.empty
           [None, Some ''EACCES'', Some ''EACCES'', Some ''EACCES'', Some ''EACCES''])
         \<lparr>faults := [], now := 1700000003000,
           events := [Mkdir, ReadFile store_path, ReadFile store_path, Sleep 1000,
                      ReadFile store_path, Sleep 2000, ReadFile store_path]\<rparr>)"
    by (simp add: world_with_simps path)
  from initialize_retries_with_doubling_backoff
         [where w = "world_with (Map.empty(store_path \<mapsto> Document ?doc))
                       [None, Some ''EACCES'', Some ''EIO'', None]"
            and ?c2.0 = "''EIO''" and fs = "[]" and rt = node and st = ?st and raw = ?doc
            and l = "data (store_of store_path [milk])", OF ne, THEN conjunct2]
  have b: "initialize node ?st
       (world_with (Map.empty(store_path \<mapsto> Document ?doc))
          [None, Some ''EACCES'', Some ''EIO'', None])
     = (Inr (), ?st\<lparr>data := data (store_of store_path [milk]), isInitialized := True\<rparr>,
        (world_with (Map.empty(store_path \<mapsto> Document ?doc))
           [None, Some ''EACCES'', Some ''EIO'', None])
         \<lparr>faults := [], now := 1700000001000,
           events := [Mkdir, ReadFile store_path, ReadFile store_path, Sleep 1000,
                      ReadFile store_path]\<rparr>)"
    by (simp add: world_with_simps path parse_store_of_milk)
  from ne a b show ?thesis by blast
qed

text \<open>
  Against C3 as it was stated: the waits between the retries are 1 s and 2 s, not 1 s
  each; and a file of malformed JSON is read four times, with the same waits, before a
  StorageError (not a FileError) is surfaced.
\<close>

theorem initialize_backoff_counterexample:
  "events (snd (snd (initialize node (new_TodoStorage node (world_with Map.empty []) store_path)
       (world_with Map.empty
          [None, Some ''EACCES'', Some ''EACCES'', Some ''EACCES'', Some ''EACCES'']))))
     = [Mkdir, ReadFile store_path, ReadFile store_path, Sleep 1000, ReadFile store_path,
        Sleep 2000, ReadFile store_path]
   \<and> fst (initialize node (new_TodoStorage node (world_with Map.empty []) store_path)
            (world_with (Map.empty(store_path \<mapsto> Malformed)) []))
     = Inl (StorageError (InitializeFailed (StorageError (AttemptsExhausted 3
              (FileError ReadOp store_path (InvalidJSON SyntaxError))))))
   \<and> events (snd (snd (initialize node (new_TodoStorage node (world_with Map.empty []) store_path)
            (world_with (Map.empty(store_path \<mapsto> Malformed)) []))))
     = [Mkdir, ReadFile store_path, ReadFile store_path, Sleep 1000, ReadFile store_path,
        Sleep 2000, ReadFile store_path]"
proof -
  let ?st = "new_TodoStorage node (world_with Map.empty []) store_path"
  have path: "filePath ?st = store_path" by (simp add: new_TodoStorage_def)
  have ne: "''EACCES'' \<noteq> ''ENOENT''" by simp
  have a: "faults (world_with Map.empty
          [None, Some ''EACCES'', Some ''EACCES'', Some ''EACCES'', Some ''EACCES''])
        = None # Some ''EACCES'' # Some ''EACCES'' # Some ''EACCES'' # Some ''EACCES'' # []"
    by (simp add: world_with_simps)
  have b: "faults (world_with (Map.empty(store_path \<mapsto> Malformed)) []) = []"
    and c: "files (world_with (Map.empty(store_path \<mapsto> Malformed)) []) (filePath ?st)
              = Some Malformed"
    by (simp_all add: world_with_simps path)
  show ?thesis
    by (simp add: initialize_all_reads_fail [OF a ne] initialize_malformed [OF b c]
          world_with_simps path)
qed

subsection \<open>Updating a todo\<close>

lemma map_of_assign: "map_of (assign k v kvs) = (map_of kvs)(k \<mapsto> v)"
  by (induction kvs) auto

lemma map_of_put: "map_of (put k x kvs) = (map_of kvs)(k := x)"
proof (cases x)
  case None
  have "map_of (filter (\<lambda>p. fst p \<noteq> k) kvs) = (map_of kvs)(k := None)"
    by (induction kvs) auto
  with None show ?thesis by simp
next
  case (Some v)
  then show ?thesis by (simp add: map_of_assign)
qed

lemma map_of_assign_all:
  "map_of (assign_all ups kvs) k =
     (case update_prop ups k of None \<Rightarrow> map_of kvs k | Some x \<Rightarrow> x)"
proof (induction ups arbitrary: kvs)
  case Nil
  show ?case by (simp add: update_prop_def)
next
  case (Cons a ups)
  obtain k' v where a: "a = (k', v)" by (cases a)
  show ?case
    by (simp add: a Cons.IH map_of_put update_prop_def map_add_def split: option.splits)
qed

lemma update_prop_absent: "k \<notin> fst ` set u \<Longrightarrow> update_prop u k = None"
  by (simp add: update_prop_def map_of_eq_None_iff)

lemma typed_has_no_id: "TodoUpdates_typed u \<Longrightarrow> ''id'' \<notin> fst ` set u"
  by (auto simp: TodoUpdates_typed_def list_all_iff)

lemma field_updateTodo:
  "field (TodoUtils_updateTodo rt w (JObj kvs) u) k =
     (if k = ''updatedAt'' then Some (JStr (toISOString rt (now w)))
      else case update_prop u k of None \<Rightarrow> map_of kvs k | Some x \<Rightarrow> x)"
  by (simp add: TodoUtils_updateTodo_def map_of_assign map_of_assign_all getCurrentTimestamp_def)

lemma field_Some_object: "field v k = Some x \<Longrightarrow> \<exists>kvs. v = JObj kvs"
  by (cases v) simp_all

lemma updateTodo_Inr:
  assumes "updateTodo rt i u st w = (Inr t', st', w')"
  shows "\<exists>n kvs. n < length (todos (data st)) \<and> todos (data st) ! n = JObj kvs
           \<and> map_of kvs ''id'' = Some (JStr i)
           \<and> t' = TodoUtils_updateTodo rt w (JObj kvs) u
           \<and> todos (data st') = (todos (data st))[n := t']
           \<and> files w' (filePath st) = Some (Document (TodoList_json (data st')))"
proof -
  from assms obtain n where
    fi: "findIndex_id (todos (data st)) i = Inr (Some n)"
    and t': "t' = TodoUtils_updateTodo rt w (todos (data st) ! n) u"
    and sv: "saveToFile rt (st\<lparr>data := (data st)\<lparr>todos := (todos (data st))[n := t']\<rparr>\<rparr>) w
               = (Inr (), st', w')"
    by (auto simp: updateTodo_def Let_def split: sum.splits option.splits if_splits prod.splits)
  note f = findIndex_id_Some [OF fi]
  from f field_Some_object obtain kvs where kvs: "todos (data st) ! n = JObj kvs" by blast
  from saveToFile_frame [OF sv] saveToFile_Inr [OF sv] f kvs t' show ?thesis
    by auto
qed

text \<open>
  C4 (amended). For every existing Todo and every partial-update object, \<open>updateTodo\<close>
  applies the properties present in the update over the existing Todo: a property of
  the update other than \<open>id\<close>, \<open>createdAt\<close> and \<open>updatedAt\<close> takes the update's value, and is
  cleared when the update holds it with the value \<open>undefined\<close>; every property that the
  update does not have, \<open>updatedAt\<close> apart, stays as it was. So \<open>createdAt\<close> is kept by
  every update that has no \<open>createdAt\<close> property, and \<open>id\<close> is kept by every update of the
  declared type, which has no \<open>id\<close>. \<open>updatedAt\<close> is always set to the current time,
  whatever the update holds. Where the runtime reads its own timestamps back, the new
  \<open>updatedAt\<close> is on or after the previous one exactly when the previous one is not later
  than the current time. The updated Todo replaces the old one in place and is persisted.
\<close>

theorem updateTodo_merges_present_fields:
  assumes "updateTodo rt i u st w = (Inr t', st', w')"
  shows "\<exists>n. n < length (todos (data st))
    \<and> field (todos (data st) ! n) ''id'' = Some (JStr i)
    \<and> todos (data st') = (todos (data st))[n := t']
    \<and> files w' (filePath st) = Some (Document (TodoList_json (data st')))
    \<and> field t' ''updatedAt'' = Some (JStr (toISOString rt (now w)))
    \<and> (\<forall>k v. k \<notin> {''id'', ''createdAt'', ''updatedAt''} \<and> update_prop u k = Some v \<longrightarrow>
            field t' k = v)
    \<and> (\<forall>k. k \<noteq> ''updatedAt'' \<and> update_prop u k = None \<longrightarrow>
            field t' k = field (todos (data st) ! n) k)
    \<and> (update_prop u ''createdAt'' = None \<longrightarrow>
            field t' ''createdAt'' = field (todos (data st) ! n) ''createdAt'')
    \<and> (TodoUpdates_typed u \<longrightarrow> field t' ''id'' = Some (JStr i))
    \<and> (\<forall>p tp. Date_of rt (JStr (toISOString rt (now w))) = Some (int (now w))
          \<and> field (todos (data st) ! n) ''updatedAt'' = Some (JStr p)
          \<and> Date_of rt (JStr p) = Some tp \<longrightarrow>
          (\<exists>q tn. field t' ''updatedAt'' = Some (JStr q) \<and> Date_of rt (JStr q) = Some tn
                   \<and> (tp \<le> tn \<longleftrightarrow> tp \<le> int (now w))))"
proof -
  from updateTodo_Inr [OF assms] obtain n kvs where
    n: "n < length (todos (data st))" and ex: "todos (data st) ! n = JObj kvs"
    and i: "map_of kvs ''id'' = Some (JStr i)"
    and t': "t' = TodoUtils_updateTodo rt w (JObj kvs) u"
    and td: "todos (data st') = (todos (data st))[n := t']"
    and onfile: "files w' (filePath st) = Some (Document (TodoList_json (data st')))"
    by blast
  have f: "\<And>k. field t' k =
     (if k = ''updatedAt'' then Some (JStr (toISOString rt (now w)))
      else case update_prop u k of None \<Rightarrow> field (todos (data st) ! n) k | Some x \<Rightarrow> x)"
    by (simp add: t' ex field_updateTodo split: option.split)
  have idx: "field (todos (data st) ! n) ''id'' = Some (JStr i)" by (simp add: ex i)
  have upd: "field t' ''updatedAt'' = Some (JStr (toISOString rt (now w)))" by (simp add: f)
  have present: "\<forall>k v. k \<notin> {''id'', ''createdAt'', ''updatedAt''} \<and> update_prop u k = Some v \<longrightarrow>
            field t' k = v"
    by (simp add: f)
  have absent: "\<forall>k. k \<noteq> ''updatedAt'' \<and> update_prop u k = None \<longrightarrow>
            field t' k = field (todos (data st) ! n) k"
    by (simp add: f)
  have created: "update_prop u ''createdAt'' = None \<longrightarrow>
            field t' ''createdAt'' = field (todos (data st) ! n) ''createdAt''"
    by (simp add: f)
  have idk: "TodoUpdates_typed u \<longrightarrow> field t' ''id'' = Some (JStr i)"
  proof
    assume "TodoUpdates_typed u"
    then have "update_prop u ''id'' = None"
      by (simp add: typed_has_no_id update_prop_absent)
    then show "field t' ''id'' = Some (JStr i)" by (simp add: f idx)
  qed
  have ord: "\<forall>p tp. Date_of rt (JStr (toISOString rt (now w))) = Some (int (now w))
          \<and> field (todos (data st) ! n) ''updatedAt'' = Some (JStr p)
          \<and> Date_of rt (JStr p) = Some tp \<longrightarrow>
          (\<exists>q tn. field t' ''updatedAt'' = Some (JStr q) \<and> Date_of rt (JStr q) = Some tn
                   \<and> (tp \<le> tn \<longleftrightarrow> tp \<le> int (now w)))"
    by (simp add: f)
  show ?thesis
    apply (rule exI [of _ n])
    apply (intro conjI)
    apply (rule n)
    apply (rule idx)
    apply (rule td)
    apply (rule onfile)
    apply (rule upd)
    apply (rule present)
    apply (rule absent)
    apply (rule created)
    apply (rule idk)
    apply (rule ord)
    done
qed

lemma updateTodo_first:
  assumes "isInitialized st" and "todos (data st) = [todo_json t]" and "i = todo_id t"
    and "TodoSchema_parse rt (TodoUtils_updateTodo rt w (todo_json t) u) = Some t2"
    and "faults w = []"
  shows "\<exists>st' w'. updateTodo rt i u st w = (Inr (TodoUtils_updateTodo rt w (todo_json t) u), st', w')"
proof -
  let ?t' = "TodoUtils_updateTodo rt w (todo_json t) u"
  let ?st = "st\<lparr>data := (data st)\<lparr>todos := (todos (data st))[0 := ?t']\<rparr>\<rparr>"
  have fi: "findIndex_id (todos (data st)) i = Inr (Some 0)"
    by (simp add: assms(2,3) get_prop_def field_todo_json)
  have "JNull \<notin> set (todos (data ?st))"
    by (simp add: assms(2) TodoUtils_updateTodo_def)
  from updateMetadata_total [OF this] obtain st1 where um: "updateMetadata rt w ?st = Inr st1" ..
  have "faults w = [] \<or> hd (faults w) = None" using assms(5) by simp
  note sv = saveToFile_no_fault [OF this um]
  show ?thesis
    using assms(1,2,4) fi sv by (simp add: updateTodo_def ensureInitialized_def)
qed

lemmas update_eval =
  TodoUtils_updateTodo_def todo_json_def milk_def entry_def
  getCurrentTimestamp_def world_with_simps node_now

lemma milk_renamed:
  "TodoUtils_updateTodo node (world_with Map.empty []) (todo_json milk)
     [(''title'', Some (JStr ''Buy oat milk'')), (''description'', None)]
   = JObj [(''id'', JStr ''123e4567-e89b-42d3-a456-426614174000''),
           (''title'', JStr ''Buy oat milk''), (''completed'', JBool False),
           (''createdAt'', JStr ''2023-11-01T09:00:00.000Z''),
           (''updatedAt'', JStr ''2023-11-14T22:13:20.000Z''),
           (''priority'', JStr ''medium''), (''tags'', JArr [])]"
  by (simp add: update_eval)

lemma milk_from_the_future:
  "TodoUtils_updateTodo node (world_with Map.empty [])
     (todo_json (milk\<lparr>updatedAt := ''2999-01-01T00:00:00.000Z''\<rparr>)) []
   = JObj [(''id'', JStr ''123e4567-e89b-42d3-a456-426614174000''), (''title'', JStr ''Buy milk''),
           (''description'', JStr []), (''completed'', JBool False),
           (''createdAt'', JStr ''2023-11-01T09:00:00.000Z''),
           (''updatedAt'', JStr ''2023-11-14T22:13:20.000Z''),
           (''priority'', JStr ''medium''), (''tags'', JArr [])]"
  by (simp add: update_eval)

lemmas parse_eval =
  parse_date_def day_ms_def time_ms_def number_at_def digit_value_def days_from_civil_def
  days_of_def is_digit_def

lemma node_dates:
  "Date_of node (JStr ''2023-11-14T22:13:20.000Z'') = Some 1700000000000"
  "Date_of node (JStr ''2999-01-01T00:00:00.000Z'') = Some 32472144000000"
  "Date_of node (JStr ''2023-11-05T10:30:00.000Z'') = Some 1699180200000"
  by (simp_all add: Date_of_def Date_string_def node_simps parse_eval)

text \<open>
  An update object that holds \<open>createdAt\<close>, as the parameter type of
  \<open>TodoStorage.updateTodo\<close> admits: the spread copies it like any other property.
\<close>

lemma updateTodo_copies_supplied_createdAt:
  "TodoUpdates_typed [(''createdAt'', Some (JStr ''2001-01-01T00:00:00.000Z''))]
   \<and> fst (updateTodo node (todo_id milk)
            [(''createdAt'', Some (JStr ''2001-01-01T00:00:00.000Z''))]
            (store_of store_path [milk]) (world_with Map.empty []))
     = Inr (JObj [(''id'', JStr ''123e4567-e89b-42d3-a456-426614174000''),
                  (''title'', JStr ''Buy milk''), (''description'', JStr []),
                  (''completed'', JBool False),
                  (''createdAt'', JStr ''2001-01-01T00:00:00.000Z''),
                  (''updatedAt'', JStr ''2023-11-14T22:13:20.000Z''),
                  (''priority'', JStr ''medium''), (''tags'', JArr [])])"
proof -
  let ?w = "world_with Map.empty []"
  let ?u = "[(''createdAt'', Some (JStr ''2001-01-01T00:00:00.000Z''))]"
  have e: "TodoUtils_updateTodo node ?w (todo_json milk) ?u
     = JObj [(''id'', JStr ''123e4567-e89b-42d3-a456-426614174000''),
             (''title'', JStr ''Buy milk''), (''description'', JStr []),
             (''completed'', JBool False),
             (''createdAt'', JStr ''2001-01-01T00:00:00.000Z''),
             (''updatedAt'', JStr ''2023-11-14T22:13:20.000Z''),
             (''priority'', JStr ''medium''), (''tags'', JArr [])]"
    by (simp add: update_eval)
  have p1: "TodoSchema_parse node (TodoUtils_updateTodo node ?w (todo_json milk) ?u)
              = Some (milk\<lparr>createdAt := ''2001-01-01T00:00:00.000Z'',
                          updatedAt := ''2023-11-14T22:13:20.000Z''\<rparr>)"
    by (simp add: e) (simp add: zod_defs node_simps milk_def)
  have s1: "isInitialized (store_of store_path [milk])"
    "todos (data (store_of store_path [milk])) = [todo_json milk]"
    "faults ?w = []"
    by (simp_all add: store_of_def world_with_simps)
  from updateTodo_first [OF s1(1,2) refl p1 s1(3)]
  have a: "fst (updateTodo node (todo_id milk) ?u (store_of store_path [milk]) ?w)
             = Inr (TodoUtils_updateTodo node ?w (todo_json milk) ?u)" by auto
  have t: "TodoUpdates_typed ?u"
    by (simp add: TodoUpdates_typed_def field_typed_def is_string_def)
  from a t show ?thesis by (simp add: e)
qed

text \<open>
  The witness: an update of \<open>milk\<close>, in a store that holds it, whose \<open>title\<close> is a new
  string and whose \<open>description\<close> is \<open>undefined\<close>.
\<close>

theorem updateTodo_merges_present_fields_witness:
  "\<exists>t' st' w'.
     updateTodo node (todo_id milk)
       [(''title'', Some (JStr ''Buy oat milk'')), (''description'', None)]
       (store_of store_path [milk]) (world_with Map.empty []) = (Inr t', st', w')
     \<and> TodoUpdates_typed [(''title'', Some (JStr ''Buy oat milk'')), (''description'', None)]
     \<and> todos (data st') = [t']
     \<and> files w' store_path = Some (Document (TodoList_json (data st')))
     \<and> field t' ''id'' = Some (JStr (todo_id milk))
     \<and> field t' ''title'' = Some (JStr ''Buy oat milk'')
     \<and> field t' ''description'' = None
     \<and> field t' ''completed'' = Some (JBool False)
     \<and> field t' ''createdAt'' = Some (JStr (createdAt milk))
     \<and> field t' ''updatedAt'' = Some (JStr ''2023-11-14T22:13:20.000Z'')
     \<and> Date_of node (JStr (updatedAt milk)) = Some 1699180200000
     \<and> Date_of node (JStr ''2023-11-14T22:13:20.000Z'') = Some 1700000000000"
proof -
  let ?u = "[(''title'', Some (JStr ''Buy oat milk'')), (''description'', None)]"
  let ?w = "world_with Map.empty []"
  let ?st = "store_of store_path [milk]"
  let ?t = "TodoUtils_updateTodo node ?w (todo_json milk) ?u"
  have p: "TodoSchema_parse node ?t
             = Some (milk\<lparr>title := ''Buy oat milk'', updatedAt := ''2023-11-14T22:13:20.000Z''\<rparr>)"
    by (simp add: milk_renamed) (simp add: zod_defs node_simps milk_def)
  have "isInitialized ?st" and "todos (data ?st) = [todo_json milk]" and "faults ?w = []"
    by (simp_all add: store_of_def world_with_simps)
  from updateTodo_first [OF this(1,2) refl p this(3)]
  obtain st' w' where run: "updateTodo node (todo_id milk) ?u ?st ?w = (Inr ?t, st', w')"
    by blast
  have typed: "TodoUpdates_typed ?u"
    by (simp add: TodoUpdates_typed_def field_typed_def is_string_def)
  have props: "update_prop ?u ''title'' = Some (Some (JStr ''Buy oat milk''))"
    "update_prop ?u ''description'' = Some None"
    "update_prop ?u ''completed'' = None"
    "update_prop ?u ''createdAt'' = None"
    by (simp_all add: update_prop_def)
  from updateTodo_merges_present_fields [OF run] obtain n where
    n: "n < length (todos (data ?st))"
    and k: "todos (data st') = (todos (data ?st))[n := ?t]"
      "files w' (filePath ?st) = Some (Document (TodoList_json (data st')))"
      "field ?t ''updatedAt'' = Some (JStr (toISOString node (now ?w)))"
    and present: "\<forall>k v. k \<notin> {''id'', ''createdAt'', ''updatedAt''} \<and> update_prop ?u k = Some v \<longrightarrow>
            field ?t k = v"
    and absent: "\<forall>k. k \<noteq> ''updatedAt'' \<and> update_prop ?u k = None \<longrightarrow>
            field ?t k = field (todos (data ?st) ! n) k"
    and created: "update_prop ?u ''createdAt'' = None \<longrightarrow>
            field ?t ''createdAt'' = field (todos (data ?st) ! n) ''createdAt''"
    and idk: "TodoUpdates_typed ?u \<longrightarrow> field ?t ''id'' = Some (JStr (todo_id milk))"
    by (elim exE conjE)
  from n have n0: "n = 0" by (simp add: store_of_def)
  have old: "todos (data ?st) ! 0 = todo_json milk" by (simp add: store_of_def)
  from present props(1) have f1: "field ?t ''title'' = Some (JStr ''Buy oat milk'')" by simp
  from present props(2) have f2: "field ?t ''description'' = None" by simp
  from absent props(3)
  have e3: "field ?t ''completed'' = field (todos (data ?st) ! n) ''completed''" by simp
  have f3: "field ?t ''completed'' = Some (JBool False)"
    unfolding e3 n0 old by (simp add: field_todo_json milk_def)
  from created props(4)
  have e4: "field ?t ''createdAt'' = field (todos (data ?st) ! n) ''createdAt''" by simp
  have f4: "field ?t ''createdAt'' = Some (JStr (createdAt milk))"
    unfolding e4 n0 old by (simp add: field_todo_json)
  from idk typed have f5: "field ?t ''id'' = Some (JStr (todo_id milk))" by simp
  have f6: "field ?t ''updatedAt'' = Some (JStr ''2023-11-14T22:13:20.000Z'')"
    using k(3) by (simp add: world_with_simps node_now)
  have td: "todos (data st') = [?t]" using k(1) by (simp add: n0 store_of_def)
  have fl: "files w' store_path = Some (Document (TodoList_json (data st')))"
    using k(2) by (simp add: store_of_def)
  have d: "Date_of node (JStr (updatedAt milk)) = Some 1699180200000"
    using node_dates(3) by (simp add: milk_def)
  show ?thesis
    apply (rule exI [of _ ?t])
    apply (rule exI [of _ st'])
    apply (rule exI [of _ w'])
    apply (intro conjI)
    apply (rule run)
    apply (rule typed)
    apply (rule td)
    apply (rule fl)
    apply (rule f5)
    apply (rule f1)
    apply (rule f2)
    apply (rule f3)
    apply (rule f4)
    apply (rule f6)
    apply (rule d)
    apply (rule node_dates(1))
    done
qed

text \<open>
  Against C4 as it was stated: a todo whose \<open>updatedAt\<close> lies in the year 2999 gets, from
  an empty update in 2023, an \<open>updatedAt\<close> that is earlier than its previous one.
\<close>

theorem updateTodo_updatedAt_counterexample:
  "fst (updateTodo node (todo_id milk) []
          (store_of store_path [milk\<lparr>updatedAt := ''2999-01-01T00:00:00.000Z''\<rparr>])
          (world_with Map.empty []))
     = Inr (JObj [(''id'', JStr ''123e4567-e89b-42d3-a456-426614174000''),
                  (''title'', JStr ''Buy milk''), (''description'', JStr []),
                  (''completed'', JBool False),
                  (''createdAt'', JStr ''2023-11-01T09:00:00.000Z''),
                  (''updatedAt'', JStr ''2023-11-14T22:13:20.000Z''),
                  (''priority'', JStr ''medium''), (''tags'', JArr [])])
   \<and> Date_of node (JStr ''2023-11-14T22:13:20.000Z'') = Some 1700000000000
   \<and> Date_of node (JStr ''2999-01-01T00:00:00.000Z'') = Some 32472144000000"
proof -
  let ?w = "world_with Map.empty []"
  let ?late = "milk\<lparr>updatedAt := ''2999-01-01T00:00:00.000Z''\<rparr>"
  have nf: "faults ?w = []" by (simp add: world_with_simps)
  have p2: "TodoSchema_parse node (TodoUtils_updateTodo node ?w (todo_json ?late) [])
              = Some (milk\<lparr>updatedAt := ''2023-11-14T22:13:20.000Z''\<rparr>)"
    by (simp add: update_eval zod_defs node_simps)
  have s2: "isInitialized (store_of store_path [?late])"
    "todos (data (store_of store_path [?late])) = [todo_json ?late]"
    "todo_id milk = todo_id ?late"
    by (simp_all add: store_of_def)
  from updateTodo_first [OF s2 p2 nf]
  have b: "fst (updateTodo node (todo_id milk) [] (store_of store_path [?late]) ?w)
             = Inr (TodoUtils_updateTodo node ?w (todo_json ?late) [])" by auto
  from b node_dates(1,2) show ?thesis
    by (simp add: milk_from_the_future)
qed

subsection \<open>The backup path\<close>

lemma replace_first_indexOf:
  "replace_first pat rep s =
     (case indexOf pat s of None \<Rightarrow> s | Some n \<Rightarrow> take n s @ rep @ drop (n + length pat) s)"
  by (induction s) (auto split: option.splits)

lemma indexOf_bound: "indexOf pat s = Some n \<Longrightarrow> n \<le> length s"
  by (induction s arbitrary: n) (auto split: if_splits)

lemma indexOf_occurs: "indexOf pat s = Some n \<Longrightarrow> take (length pat) (drop n s) = pat"
proof (induction s arbitrary: n)
  case Nil
  then show ?case by (auto split: if_splits)
next
  case (Cons c s)
  show ?case
  proof (cases "take (length pat) (c # s) = pat")
    case True
    with Cons.prems show ?thesis by simp
  next
    case False
    with Cons.prems obtain m where "indexOf pat s = Some m" and "n = Suc m" by auto
    with Cons.IH [of m] show ?thesis by simp
  qed
qed

lemma backup_path_extension:
  assumes "indexOf ''.json'' path = Some n" and "n + 5 = length path"
  shows "backup_path rt w path = take n path @ ''_backup_'' @ backup_timestamp rt w @ ''.json''"
    and "path = take n path @ ''.json''"
    and "backup_path rt w path \<noteq> path"
proof -
  show p: "backup_path rt w path = take n path @ ''_backup_'' @ backup_timestamp rt w @ ''.json''"
    using assms by (simp add: backup_path_def replace_first_indexOf)
  from indexOf_occurs [OF assms(1)] assms(2) have "drop n path = ''.json''" by simp
  then show "path = take n path @ ''.json''" by (metis append_take_drop_id)
  have "length (backup_path rt w path) \<noteq> length path"
    using assms(2) by (simp add: p)
  then show "backup_path rt w path \<noteq> path" by auto
qed

lemma createBackup_Inr:
  "createBackup rt st w = (Inr p, w') \<Longrightarrow>
     isInitialized st \<and> p = backup_path rt w (filePath st)
     \<and> files w' p = Some (Document (TodoList_json (data st)))"
  by (auto simp: createBackup_def ensureInitialized_def Let_def fs_writeFile_def fs_call_def
           split: if_splits prod.splits sum.splits option.splits)

lemma createBackup_no_fault:
  "isInitialized st \<Longrightarrow> faults w = [] \<or> hd (faults w) = None \<Longrightarrow>
     createBackup rt st w =
       (Inr (backup_path rt w (filePath st)),
        w\<lparr>faults := tl (faults w),
          events := events w @ [WriteFile (backup_path rt w (filePath st))],
          files := (files w)(backup_path rt w (filePath st)
                               \<mapsto> Document (TodoList_json (data st)))\<rparr>)"
  by (cases "faults w")
     (auto simp: createBackup_def ensureInitialized_def Let_def fs_writeFile_def fs_call_def)

text \<open>
  Where the first occurrence of ".json" in the store path is its extension, the backup
  goes to the sibling file named in the documentation of \<open>createBackup\<close>.
\<close>

lemma createBackup_json_extension:
  assumes "indexOf ''.json'' (filePath st) = Some n" and "n + 5 = length (filePath st)"
  shows "filePath st = take n (filePath st) @ ''.json''
    \<and> (createBackup rt st w = (Inr p, w') \<longrightarrow>
          p = take n (filePath st) @ ''_backup_'' @ backup_timestamp rt w @ ''.json''
          \<and> p \<noteq> filePath st
          \<and> files w' p = Some (Document (TodoList_json (data st))))
    \<and> (isInitialized st \<and> (faults w = [] \<or> hd (faults w) = None) \<longrightarrow>
          fst (createBackup rt st w)
            = Inr (take n (filePath st) @ ''_backup_'' @ backup_timestamp rt w @ ''.json''))"
proof -
  note b = backup_path_extension [OF assms]
  have "createBackup rt st w = (Inr p, w') \<longrightarrow>
          p = take n (filePath st) @ ''_backup_'' @ backup_timestamp rt w @ ''.json''
          \<and> p \<noteq> filePath st
          \<and> files w' p = Some (Document (TodoList_json (data st)))"
  proof
    assume run: "createBackup rt st w = (Inr p, w')"
    note c = createBackup_Inr [OF run]
    from c have pe: "p = backup_path rt w (filePath st)" by simp
    have 1: "p = take n (filePath st) @ ''_backup_'' @ backup_timestamp rt w @ ''.json''"
      unfolding pe by (rule b(1))
    have 2: "p \<noteq> filePath st" unfolding pe by (rule b(3))
    have 3: "files w' p = Some (Document (TodoList_json (data st)))" using c by blast
    from 1 2 3 show "p = take n (filePath st) @ ''_backup_'' @ backup_timestamp rt w @ ''.json''
          \<and> p \<noteq> filePath st
          \<and> files w' p = Some (Document (TodoList_json (data st)))" by blast
  qed
  moreover have "isInitialized st \<and> (faults w = [] \<or> hd (faults w) = None) \<longrightarrow>
          fst (createBackup rt st w)
            = Inr (take n (filePath st) @ ''_backup_'' @ backup_timestamp rt w @ ''.json'')"
    using b(1) [of rt w] createBackup_no_fault [of st w rt] by (simp del: append.simps)
  ultimately show ?thesis using b(2) by blast
qed

lemma node_backup_timestamp:
  "backup_timestamp node (world_with fs script) = ''2023-11-14T22-13-20-000Z''"
  by (simp add: backup_timestamp_def world_with_simps node_now)

text \<open>The default store path is such a path.\<close>

lemma createBackup_default_path:
  "indexOf ''.json'' (filePath (store_of store_path [milk])) = Some 7
   \<and> 7 + 5 = length (filePath (store_of store_path [milk]))
   \<and> isInitialized (store_of store_path [milk])
   \<and> faults (world_with Map.empty []) = []
   \<and> filePath (store_of store_path [milk]) = ''./todos.json''
   \<and> fst (createBackup node (store_of store_path [milk]) (world_with Map.empty []))
       = Inr ''./todos_backup_2023-11-14T22-13-20-000Z.json''"
proof -
  have a: "indexOf ''.json'' (filePath (store_of store_path [milk])) = Some 7"
    and b: "7 + 5 = length (filePath (store_of store_path [milk]))"
    and c: "isInitialized (store_of store_path [milk])"
    and d: "faults (world_with Map.empty []) = []"
    and e: "filePath (store_of store_path [milk]) = ''./todos.json''"
    by (simp_all add: store_of_def store_path_def world_with_simps)
  from createBackup_json_extension
         [OF a b, of node "world_with Map.empty []", THEN conjunct2, THEN conjunct2] c d
  have "fst (createBackup node (store_of store_path [milk]) (world_with Map.empty []))
          = Inr (take 7 (filePath (store_of store_path [milk])) @ ''_backup_''
                 @ backup_timestamp node (world_with Map.empty []) @ ''.json'')"
    by simp
  with a b c d e show ?thesis by (simp add: node_backup_timestamp)
qed

text \<open>
  C9. For every store file path, \<open>createBackup\<close> serialises the current in-memory TodoList
  to a sibling file whose name is the store path with \<open>_backup_<timestamp>\<close> inserted
  before the extension, so that the backup path differs from the store path, and returns
  that path. The code does not do so for the store path \<open>todos.txt\<close>: the replacement
  finds no ".json", the backup path is the store path itself, the one write goes to the
  store file, and the path returned holds no \<open>_backup_\<close>.
\<close>

theorem createBackup_overwrites_store_file:
  "filePath (store_of ''todos.txt'' [milk]) = ''todos.txt''
   \<and> isInitialized (store_of ''todos.txt'' [milk])
   \<and> fst (createBackup node (store_of ''todos.txt'' [milk]) (world_with Map.empty []))
       = Inr ''todos.txt''
   \<and> events (snd (createBackup node (store_of ''todos.txt'' [milk]) (world_with Map.empty [])))
       = [WriteFile ''todos.txt'']
   \<and> files (snd (createBackup node (store_of ''todos.txt'' [milk]) (world_with Map.empty [])))
       = [''todos.txt'' \<mapsto> Document (TodoList_json (data (store_of ''todos.txt'' [milk])))]"
proof -
  have c: "isInitialized (store_of ''todos.txt'' [milk])"
    "filePath (store_of ''todos.txt'' [milk]) = ''todos.txt''"
    by (simp_all add: store_of_def)
  have d: "faults (world_with Map.empty []) = [] \<or> hd (faults (world_with Map.empty [])) = None"
    by (simp add: world_with_simps)
  have p: "backup_path node (world_with Map.empty []) ''todos.txt'' = ''todos.txt''"
    by (simp add: backup_path_def)
  show ?thesis
    by (simp add: createBackup_no_fault [OF c(1) d] c p world_with_simps)
qed

subsection \<open>Metadata\<close>

lemma saveToFile_recomputed:
  assumes "saveToFile rt st w = (Inr u, st', w')"
  shows "recomputed rt w (data st') \<and> todos (data st') = todos (data st)
         \<and> files w' (filePath st) = Some (Document (TodoList_json (data st')))"
proof -
  note s = saveToFile_Inr [OF assms]
  note m = updateMetadata_Inr [OF s [THEN conjunct1]]
  from s m show ?thesis
    by (simp add: recomputed_def completed_in_def getCurrentTimestamp_def)
qed

lemma getTodoList_recomputed:
  assumes "getTodoList rt st w = (Inr l, st')"
  shows "recomputed rt w l \<and> todos l = todos (data st) \<and> data st' = l"
proof -
  from assms have um: "updateMetadata rt w st = Inr st'" and l: "l = data st'"
    by (auto simp: getTodoList_def split: sum.splits)
  from updateMetadata_Inr [OF um] l show ?thesis
    by (simp add: recomputed_def completed_in_def getCurrentTimestamp_def)
qed

lemma saveToFile_total:
  assumes "JNull \<notin> set (todos (data st))" and "faults w = []"
  shows "\<exists>st' w'. saveToFile rt st w = (Inr (), st', w')"
proof -
  from updateMetadata_total [OF assms(1)] obtain st1 where "updateMetadata rt w st = Inr st1" ..
  from saveToFile_no_fault [OF _ this] assms(2) show ?thesis by blast
qed

lemma mutations_save:
  "addTodo rt todo st w = (Inr t, st', w') \<Longrightarrow>
     \<exists>s. filePath s = filePath st \<and> saveToFile rt s w = (Inr (), st', w')"
  "updateTodo rt i updates st w = (Inr tj, st', w') \<Longrightarrow>
     \<exists>s. filePath s = filePath st \<and> saveToFile rt s w = (Inr (), st', w')"
  "deleteTodo rt i st w = (Inr True, st', w') \<Longrightarrow>
     \<exists>s. filePath s = filePath st \<and> saveToFile rt s w = (Inr (), st', w')"
  "clearAllTodos rt st w = (Inr u, st', w') \<Longrightarrow>
     \<exists>s. filePath s = filePath st \<and> saveToFile rt s w = (Inr (), st', w')"
  by (auto simp: addTodo_def updateTodo_def deleteTodo_def clearAllTodos_def Let_def
           split: sum.splits option.splits if_splits prod.splits
           intro!: exI [of _ "st\<lparr>data := d\<rparr>" for d])

text \<open>
  C8 (amended). The Store recomputes \<open>totalCount\<close> (the length of the todo sequence) and
  \<open>completedCount\<close> (the number of completed Todos), together with \<open>lastModified\<close>, before
  every save of the store file and before every \<open>getTodoList\<close> call, rather than trusting
  the counts read from the file on load: what \<open>saveToFile\<close> writes, what \<open>addTodo\<close>,
  \<open>updateTodo\<close>, \<open>deleteTodo\<close> and \<open>clearAllTodos\<close> leave in the store file, and what
  \<open>getTodoList\<close> returns carry counts that equal the live todo sequence. (The backup file
  of \<open>createBackup\<close> is outside this: it gets the in-memory metadata as it stands.)
\<close>

theorem metadata_recomputed_before_save_and_getTodoList:
  "(saveToFile rt st w = (Inr u, st', w') \<longrightarrow>
      recomputed rt w (data st') \<and> todos (data st') = todos (data st)
      \<and> files w' (filePath st) = Some (Document (TodoList_json (data st'))))
   \<and> (getTodoList rt st w = (Inr l, st2) \<longrightarrow>
        recomputed rt w l \<and> todos l = todos (data st) \<and> data st2 = l)
   \<and> (addTodo rt todo st w = (Inr t, st', w') \<longrightarrow>
        recomputed rt w (data st')
        \<and> files w' (filePath st) = Some (Document (TodoList_json (data st'))))
   \<and> (updateTodo rt i updates st w = (Inr tj, st', w') \<longrightarrow>
        recomputed rt w (data st')
        \<and> files w' (filePath st) = Some (Document (TodoList_json (data st'))))
   \<and> (deleteTodo rt i st w = (Inr True, st', w') \<longrightarrow>
        recomputed rt w (data st')
        \<and> files w' (filePath st) = Some (Document (TodoList_json (data st'))))
   \<and> (clearAllTodos rt st w = (Inr u, st', w') \<longrightarrow>
        recomputed rt w (data st')
        \<and> files w' (filePath st) = Some (Document (TodoList_json (data st'))))"
proof (intro conjI impI)
  assume "saveToFile rt st w = (Inr u, st', w')"
  from saveToFile_recomputed [OF this]
  show "recomputed rt w (data st')" and "todos (data st') = todos (data st)"
    and "files w' (filePath st) = Some (Document (TodoList_json (data st')))" by simp_all
next
  assume "getTodoList rt st w = (Inr l, st2)"
  from getTodoList_recomputed [OF this]
  show "recomputed rt w l" and "todos l = todos (data st)" and "data st2 = l" by simp_all
next
  assume "addTodo rt todo st w = (Inr t, st', w')"
  from mutations_save(1) [OF this] obtain s where
    "filePath s = filePath st" and "saveToFile rt s w = (Inr (), st', w')" by blast
  with saveToFile_recomputed [of rt s w "()" st' w']
  show "recomputed rt w (data st')"
    and "files w' (filePath st) = Some (Document (TodoList_json (data st')))" by simp_all
next
  assume "updateTodo rt i updates st w = (Inr tj, st', w')"
  from mutations_save(2) [OF this] obtain s where
    "filePath s = filePath st" and "saveToFile rt s w = (Inr (), st', w')" by blast
  with saveToFile_recomputed [of rt s w "()" st' w']
  show "recomputed rt w (data st')"
    and "files w' (filePath st) = Some (Document (TodoList_json (data st')))" by simp_all
next
  assume "deleteTodo rt i st w = (Inr True, st', w')"
  from mutations_save(3) [OF this] obtain s where
    "filePath s = filePath st" and "saveToFile rt s w = (Inr (), st', w')" by blast
  with saveToFile_recomputed [of rt s w "()" st' w']
  show "recomputed rt w (data st')"
    and "files w' (filePath st) = Some (Document (TodoList_json (data st')))" by simp_all
next
  assume "clearAllTodos rt st w = (Inr u, st', w')"
  from mutations_save(4) [OF this] obtain s where
    "filePath s = filePath st" and "saveToFile rt s w = (Inr (), st', w')" by blast
  with saveToFile_recomputed [of rt s w "()" st' w']
  show "recomputed rt w (data st')"
    and "files w' (filePath st) = Some (Document (TodoList_json (data st')))" by simp_all
qed

lemma miscounted_simps:
  "isInitialized miscounted_store" "todos (data miscounted_store) = []"
  "filePath miscounted_store = store_path"
  "totalCount (metadata (data miscounted_store)) = 5"
  "completedCount (metadata (data miscounted_store)) = 2"
  by (simp_all add: miscounted_store_def)

lemma parse_miscounted:
  "TodoListSchema_parse node miscounted_document = Some (data miscounted_store)"
  by (simp add: TodoListSchema_parse_def miscounted_document_def miscounted_store_def z_todos_def
        z_metadata_def z_version_def z_string_def z_format_def z_count_def node_simps
        is_digit_def)

lemma TodoList_json_miscounted: "TodoList_json (data miscounted_store) = miscounted_document"
  by (simp add: TodoList_json_def metadata_json_def miscounted_store_def miscounted_document_def)

text \<open>
  The witness: a store whose loaded counts are 5 and 2 for an empty list, and a store that
  holds \<open>milk\<close>; every operation of the theorem succeeds on one of them.
\<close>

theorem metadata_recomputed_before_save_and_getTodoList_witness:
  "totalCount (metadata (data miscounted_store)) = 5
   \<and> (\<exists>st' w'. saveToFile node miscounted_store (world_with Map.empty []) = (Inr (), st', w')
        \<and> totalCount (metadata (data st')) = 0 \<and> completedCount (metadata (data st')) = 0
        \<and> files w' store_path = Some (Document (TodoList_json (data st'))))
   \<and> (\<exists>l st2. getTodoList node miscounted_store (world_with Map.empty []) = (Inr l, st2)
        \<and> totalCount (metadata l) = 0 \<and> completedCount (metadata l) = 0
        \<and> lastModified (metadata l) = ''2023-11-14T22:13:20.000Z'')
   \<and> (\<exists>t st' w'. addTodo node milk miscounted_store (world_with Map.empty []) = (Inr t, st', w')
        \<and> totalCount (metadata (data st')) = length (todos (data st'))
        \<and> files w' store_path = Some (Document (TodoList_json (data st'))))
   \<and> (\<exists>tj st' w'. updateTodo node (todo_id milk) [(''completed'', Some (JBool True))]
                      (store_of store_path [milk]) (world_with Map.empty []) = (Inr tj, st', w')
        \<and> completedCount (metadata (data st')) = completed_in (todos (data st'))
        \<and> files w' store_path = Some (Document (TodoList_json (data st'))))
   \<and> (\<exists>st' w'. deleteTodo node (todo_id milk) (store_of store_path [milk])
                   (world_with Map.empty []) = (Inr True, st', w')
        \<and> totalCount (metadata (data st')) = length (todos (data st'))
        \<and> files w' store_path = Some (Document (TodoList_json (data st'))))
   \<and> (\<exists>st' w'. clearAllTodos node miscounted_store (world_with Map.empty []) = (Inr (), st', w')
        \<and> totalCount (metadata (data st')) = 0
        \<and> files w' store_path = Some (Document (TodoList_json (data st'))))"
proof -
  let ?w = "world_with Map.empty []"
  let ?m = miscounted_store
  let ?s = "store_of store_path [milk]"
  note T = metadata_recomputed_before_save_and_getTodoList
  have nf: "faults ?w = []" by (simp add: world_with_simps)
  have nf': "faults ?w = [] \<or> hd (faults ?w) = None" by (simp add: world_with_simps)
  have s_simps: "isInitialized ?s" "todos (data ?s) = [todo_json milk]" "filePath ?s = store_path"
    by (simp_all add: store_of_def)
  \<comment> \<open>saveToFile\<close>
  have "JNull \<notin> set (todos (data ?m))" by (simp add: miscounted_simps)
  from saveToFile_total [OF this nf, of node] obtain sa wa where
    sv: "saveToFile node ?m ?w = (Inr (), sa, wa)" by blast
  from T [where rt = node and st = ?m and w = ?w and u = "()" and st' = sa and w' = wa,
          THEN conjunct1] sv
  have a: "totalCount (metadata (data sa)) = 0 \<and> completedCount (metadata (data sa)) = 0
           \<and> files wa store_path = Some (Document (TodoList_json (data sa)))"
    by (simp add: recomputed_def completed_in_def miscounted_simps)
  \<comment> \<open>getTodoList\<close>
  from updateMetadata_total [OF \<open>JNull \<notin> set (todos (data ?m))\<close>, of node ?w]
  obtain sg where "updateMetadata node ?w ?m = Inr sg" ..
  then have gt: "getTodoList node ?m ?w = (Inr (data sg), sg)"
    by (simp add: getTodoList_def ensureInitialized_def miscounted_simps)
  from T [where rt = node and st = ?m and w = ?w and l = "data sg" and ?st2.0 = sg,
          THEN conjunct2, THEN conjunct1] gt
  have b: "totalCount (metadata (data sg)) = 0 \<and> completedCount (metadata (data sg)) = 0
           \<and> lastModified (metadata (data sg)) = ''2023-11-14T22:13:20.000Z''"
    by (simp add: recomputed_def completed_in_def miscounted_simps world_with_simps node_now)
  \<comment> \<open>addTodo\<close>
  have "JNull \<notin> set (todos (data (?m\<lparr>data := (data ?m)\<lparr>todos := todos (data ?m) @ [todo_json milk]\<rparr>\<rparr>)))"
    by (simp add: miscounted_simps)
  from saveToFile_total [OF this nf, of node] obtain sb wb where
    "saveToFile node (?m\<lparr>data := (data ?m)\<lparr>todos := todos (data ?m) @ [todo_json milk]\<rparr>\<rparr>) ?w
       = (Inr (), sb, wb)" by blast
  then have ad: "addTodo node milk ?m ?w = (Inr milk, sb, wb)"
    by (simp add: addTodo_def ensureInitialized_def miscounted_simps parse_milk)
  from T [where rt = node and st = ?m and w = ?w and todo = milk and t = milk and st' = sb
            and w' = wb, THEN conjunct2, THEN conjunct2, THEN conjunct1] ad
  have c: "totalCount (metadata (data sb)) = length (todos (data sb))
           \<and> files wb store_path = Some (Document (TodoList_json (data sb)))"
    by (simp add: recomputed_def miscounted_simps)
  \<comment> \<open>updateTodo\<close>
  let ?u = "[(''completed'', Some (JBool True))]"
  have "TodoSchema_parse node (TodoUtils_updateTodo node ?w (todo_json milk) ?u)
          = Some (milk\<lparr>completed := True, updatedAt := ''2023-11-14T22:13:20.000Z''\<rparr>)"
    by (simp add: update_eval zod_defs node_simps)
  from updateTodo_first [OF s_simps(1,2) refl this nf] obtain sc wc where
    up: "updateTodo node (todo_id milk) ?u ?s ?w
           = (Inr (TodoUtils_updateTodo node ?w (todo_json milk) ?u), sc, wc)" by blast
  from T [where rt = node and st = ?s and w = ?w and i = "todo_id milk" and updates = ?u
            and tj = "TodoUtils_updateTodo node ?w (todo_json milk) ?u" and st' = sc and w' = wc,
          THEN conjunct2, THEN conjunct2, THEN conjunct2, THEN conjunct1] up
  have d: "completedCount (metadata (data sc)) = completed_in (todos (data sc))
           \<and> files wc store_path = Some (Document (TodoList_json (data sc)))"
    by (simp add: recomputed_def s_simps)
  \<comment> \<open>deleteTodo\<close>
  have fi: "findIndex_id (todos (data ?s)) (todo_id milk) = Inr (Some 0)"
    by (simp add: s_simps get_prop_def field_todo_json)
  have "JNull \<notin> set (todos (data (?s\<lparr>data := (data ?s)
           \<lparr>todos := take 0 (todos (data ?s)) @ drop (Suc 0) (todos (data ?s))\<rparr>\<rparr>)))"
    by (simp add: s_simps)
  from saveToFile_total [OF this nf, of node] obtain sd wd where
    "saveToFile node (?s\<lparr>data := (data ?s)
           \<lparr>todos := take 0 (todos (data ?s)) @ drop (Suc 0) (todos (data ?s))\<rparr>\<rparr>) ?w
       = (Inr (), sd, wd)" by blast
  with fi have de: "deleteTodo node (todo_id milk) ?s ?w = (Inr True, sd, wd)"
    by (simp add: deleteTodo_def ensureInitialized_def s_simps(1))
  from T [where rt = node and st = ?s and w = ?w and i = "todo_id milk" and st' = sd and w' = wd,
          THEN conjunct2, THEN conjunct2, THEN conjunct2, THEN conjunct2, THEN conjunct1] de
  have e: "totalCount (metadata (data sd)) = length (todos (data sd))
           \<and> files wd store_path = Some (Document (TodoList_json (data sd)))"
    by (simp add: recomputed_def s_simps)
  \<comment> \<open>clearAllTodos\<close>
  have "JNull \<notin> set (todos (data (?m\<lparr>data := (data ?m)\<lparr>todos := []\<rparr>\<rparr>)))" by simp
  from saveToFile_total [OF this nf, of node] obtain se we where
    "saveToFile node (?m\<lparr>data := (data ?m)\<lparr>todos := []\<rparr>\<rparr>) ?w = (Inr (), se, we)" by blast
  then have cl: "clearAllTodos node ?m ?w = (Inr (), se, we)"
    by (simp add: clearAllTodos_def ensureInitialized_def miscounted_simps)
  from T [where rt = node and st = ?m and w = ?w and u = "()" and st' = se and w' = we,
          THEN conjunct2, THEN conjunct2, THEN conjunct2, THEN conjunct2, THEN conjunct2] cl
       saveToFile_frame [of node "?m\<lparr>data := (data ?m)\<lparr>todos := []\<rparr>\<rparr>" ?w "Inr ()" se we]
       \<open>saveToFile node (?m\<lparr>data := (data ?m)\<lparr>todos := []\<rparr>\<rparr>) ?w = (Inr (), se, we)\<close>
  have f: "totalCount (metadata (data se)) = 0
           \<and> files we store_path = Some (Document (TodoList_json (data se)))"
    by (simp add: recomputed_def miscounted_simps)
  from sv a gt b ad c up d de e cl f show ?thesis
    by (simp add: miscounted_simps)
qed

lemma node_backup_timestamp_at:
  "now w = 1700000000000 \<Longrightarrow> backup_timestamp node w = ''2023-11-14T22-13-20-000Z''"
  by (simp add: backup_timestamp_def node_now)

text \<open>
  Against C8 as it was stated: a store initialised from a file that satisfies the schema
  with counts 5 and 2 for an empty todo list keeps these counts in memory, and
  \<open>createBackup\<close> writes them to the backup file.
\<close>

theorem createBackup_keeps_loaded_counts_counterexample:
  "initialize node (new_TodoStorage node (world_with Map.empty []) store_path)
     (world_with (Map.empty(store_path \<mapsto> Document miscounted_document)) [])
     = (Inr (), miscounted_store,
        (world_with (Map.empty(store_path \<mapsto> Document miscounted_document)) [])
          \<lparr>events := [Mkdir, ReadFile store_path]\<rparr>)
   \<and> todos (data miscounted_store) = []
   \<and> totalCount (metadata (data miscounted_store)) = 5
   \<and> completedCount (metadata (data miscounted_store)) = 2
   \<and> fst (createBackup node miscounted_store
            ((world_with (Map.empty(store_path \<mapsto> Document miscounted_document)) [])
               \<lparr>events := [Mkdir, ReadFile store_path]\<rparr>))
       = Inr ''./todos_backup_2023-11-14T22-13-20-000Z.json''
   \<and> files (snd (createBackup node miscounted_store
            ((world_with (Map.empty(store_path \<mapsto> Document miscounted_document)) [])
               \<lparr>events := [Mkdir, ReadFile store_path]\<rparr>)))
        ''./todos_backup_2023-11-14T22-13-20-000Z.json''
       = Some (Document miscounted_document)"
proof -
  let ?w = "world_with (Map.empty(store_path \<mapsto> Document miscounted_document)) []"
  let ?st = "new_TodoStorage node (world_with Map.empty []) store_path"
  let ?w1 = "?w\<lparr>events := [Mkdir, ReadFile store_path]\<rparr>"
  have st: "?st\<lparr>data := data miscounted_store, isInitialized := True\<rparr> = miscounted_store"
    by (simp add: new_TodoStorage_def miscounted_store_def)
  have init: "initialize node ?st ?w = (Inr (), miscounted_store, ?w1)"
    by (simp add: initialize_def fs_mkdir_def fs_call_def loadFromFile_def fs_readFile_def
          JSON_parse_def validateAndMigrate_def parse_miscounted finish_initialize_def
          world_with_simps st)
       (simp add: new_TodoStorage_def world_with_def miscounted_store_def)
  have nf: "faults ?w1 = [] \<or> hd (faults ?w1) = None" by (simp add: world_with_simps)
  have bp: "backup_path node ?w1 store_path = ''./todos_backup_2023-11-14T22-13-20-000Z.json''"
    by (simp add: backup_path_def store_path_def node_backup_timestamp_at world_with_simps)
  have cb: "createBackup node miscounted_store ?w1 =
       (Inr ''./todos_backup_2023-11-14T22-13-20-000Z.json'',
        ?w1\<lparr>faults := tl (faults ?w1),
            events := events ?w1 @ [WriteFile ''./todos_backup_2023-11-14T22-13-20-000Z.json''],
            files := (files ?w1)(''./todos_backup_2023-11-14T22-13-20-000Z.json''
                                  \<mapsto> Document miscounted_document)\<rparr>)"
    using createBackup_no_fault [OF miscounted_simps(1) nf, of node]
    unfolding miscounted_simps(3) bp TodoList_json_miscounted .
  show ?thesis
    unfolding init cb by (simp add: miscounted_simps)
qed

end
